theory Spec2Isabelle
  imports Complex_Main "HOL-Library.Sublist"
begin

section \<open>Radar fetcher script: a shallow embedding of radar_script.py\<close>

text \<open>
  The script fetches the latest RainViewer radar timestamp, downloads one tile for a
  fixed point, draws it on a map and saves a PNG. Python integers are \<open>int\<close>; Python
  floats are modelled as \<open>real\<close> (rounding of binary floating point is not modelled);
  strings are \<open>string\<close>. Every library call that can raise is a branch of the model.
\<close>

subsection \<open>Configuration\<close>

definition ZOOM :: int where
  "ZOOM = 7"

definition LAT :: real where
  "LAT = 157 / 10"

definition LON :: real where
  "LON = 1217 / 10"

definition AUTO_SAVE :: bool where
  "AUTO_SAVE = True"

subsection \<open>Python values, exceptions and text formatting\<close>

text \<open>
  A decoded JSON document. A JSON object is a Python dict with string keys; it is kept as
  an association list read with \<open>map_of\<close>.
\<close>

datatype json =
    JNull
  | JBool bool
  | JInt int
  | JFloat real
  | JStr string
  | JArr "json list"
  | JObj "(string \<times> json) list"

datatype exn_kind =
    RequestException
  | HTTPError
  | JSONDecodeError
  | KeyError
  | IndexError
  | TypeError
  | ValueError
  | UnidentifiedImageError
  | OSError
  | ZeroDivisionError
  | OverflowError
  | OtherException

text \<open>An exception is its class and its message; \<open>str_exn\<close> is Python's \<open>str(e)\<close>.\<close>

datatype exn = Exn exn_kind string

fun str_exn :: "exn \<Rightarrow> string" where
  "str_exn (Exn k m) = m"

definition digit_char :: "nat \<Rightarrow> char" where
  "digit_char d = ''0123456789'' ! d"

fun str_nat :: "nat \<Rightarrow> string" where
  "str_nat n = (if n < 10 then [digit_char n] else str_nat (n div 10) @ [digit_char (n mod 10)])"

declare str_nat.simps [simp del]

text \<open>Python's \<open>str\<close> of an \<open>int\<close>, which is also how an f-string formats it.\<close>

definition str_int :: "int \<Rightarrow> string" where
  "str_int i = (if i < 0 then CHR ''-'' # str_nat (nat (- i)) else str_nat (nat i))"

text \<open>Zero padding to a width, as \<open>strftime\<close> does for \<open>%Y\<close>, \<open>%m\<close>, \<open>%d\<close>, \<open>%H\<close>, \<open>%M\<close>.\<close>

definition zero_pad :: "nat \<Rightarrow> int \<Rightarrow> string" where
  "zero_pad width i = (let s = str_int i in replicate (width - length s) CHR ''0'' @ s)"

text \<open>Python's \<open>repr\<close> of a string that needs no escaping: the string in single quotes.\<close>

definition quote :: "string \<Rightarrow> string" where
  "quote s = [CHR 0x27] @ s @ [CHR 0x27]"

subsection \<open>The map extent (first lines of plot\_tile\_on\_map)\<close>

text \<open>
  \<open>delta = 360 / (2 ** zoom)\<close> and the four edges in exact arithmetic: the numbers that the
  formulas of lines 55 to 57 denote before any rounding. What Python's binary floats
  make of the same three lines is \<open>tile_delta_f64\<close> and \<open>tile_extent_f64\<close>, further down.
  The plotting calls of \<open>plot_tile_on_map\<close> are recorded with the exact extent.
\<close>

definition tile_delta :: "int \<Rightarrow> real" where
  "tile_delta zoom = 360 / (2 powi zoom)"

record extent =
  lon_min :: real
  lon_max :: real
  lat_min :: real
  lat_max :: real

definition tile_extent :: "real \<Rightarrow> real \<Rightarrow> int \<Rightarrow> extent" where
  "tile_extent lat lon zoom =
     (let delta = tile_delta zoom
      in \<lparr> lon_min = lon - delta / 2, lon_max = lon + delta / 2,
           lat_min = lat - delta / 2, lat_max = lat + delta / 2 \<rparr>)"

subsection \<open>The outside world\<close>

type_synonym byte = nat

text \<open>A decoded RGBA bitmap: width, height and the pixels.\<close>

datatype rgba_image = RGBA nat nat "(byte \<times> byte \<times> byte \<times> byte) list"

text \<open>
  What \<open>requests.get\<close> returns. \<open>headers\<close> is the case-insensitive dictionary of
  \<open>requests\<close>, stored under lower-cased names as the library does.
\<close>

record response =
  status_code :: int
  reason :: string
  url :: string
  headers :: "(string \<times> string) list"
  content :: "byte list"

text \<open>Every pyplot, axes and cartopy call of plot\_tile\_on\_map, with the arguments that vary.\<close>

datatype plot_call =
    RcParamsUpdate
  | Subplots
  | SetExtent extent
  | Imshow rgba_image extent
  | AddFeatureLand
  | Coastlines
  | AddFeatureBorders
  | AddFeatureProvinces
  | SetXticks "real list"
  | SetYticks "real list"
  | SetXFormatter
  | SetYFormatter
  | Title string
  | Savefig string
  | CloseFigure nat

text \<open>
  The libraries and the network are parameters of the model: each says what a call returns
  or which exception it raises. \<open>repr_float\<close> is Python's shortest-digits formatting of a
  float and \<open>repr_container\<close> its formatting of lists and dicts; neither is modelled further.
\<close>

record env =
  requests_get :: "string \<Rightarrow> nat \<Rightarrow> exn + response"
  json_loads :: "byte list \<Rightarrow> exn + json"
  Image_open_RGBA :: "byte list \<Rightarrow> exn + rgba_image"
  plot_raises :: "plot_call \<Rightarrow> exn option"
  repr_float :: "real \<Rightarrow> string"
  repr_container :: "json \<Rightarrow> string"

text \<open>
  The observable state: lines printed, HTTP requests issued (URL and timeout), plotting
  calls attempted, figures currently open, and the files written (name to the drawing
  history saved in them).
\<close>

record world =
  stdout :: "string list"
  http_log :: "(string \<times> nat) list"
  plot_log :: "plot_call list"
  open_figures :: "nat list"
  files :: "string \<rightharpoonup> plot_call list"

type_synonym 'a io = "world \<Rightarrow> (exn + 'a) \<times> world"

definition return_io :: "'a \<Rightarrow> 'a io" where
  "return_io a w = (Inr a, w)"

definition bind_io :: "'a io \<Rightarrow> ('a \<Rightarrow> 'b io) \<Rightarrow> 'b io" where
  "bind_io m f w = (case m w of (Inl e, w') \<Rightarrow> (Inl e, w') | (Inr a, w') \<Rightarrow> f a w')"

definition lift_exn :: "exn + 'a \<Rightarrow> 'a io" where
  "lift_exn r w = (r, w)"

text \<open>\<open>try: m except Exception as e: h e\<close>\<close>

definition try_except :: "'a io \<Rightarrow> (exn \<Rightarrow> 'a io) \<Rightarrow> 'a io" where
  "try_except m h w = (case m w of (Inl e, w') \<Rightarrow> h e w' | (Inr a, w') \<Rightarrow> (Inr a, w'))"

definition print_io :: "string \<Rightarrow> unit io" where
  "print_io s w = (Inr (), w\<lparr>stdout := stdout w @ [s]\<rparr>)"

definition requests_get_io :: "env \<Rightarrow> string \<Rightarrow> nat \<Rightarrow> response io" where
  "requests_get_io env u timeout w =
     (requests_get env u timeout, w\<lparr>http_log := http_log w @ [(u, timeout)]\<rparr>)"

definition bind_exn :: "exn + 'a \<Rightarrow> ('a \<Rightarrow> exn + 'b) \<Rightarrow> exn + 'b" where
  "bind_exn m f = (case m of Inl e \<Rightarrow> Inl e | Inr a \<Rightarrow> f a)"

subsection \<open>Library behaviour the script relies on\<close>

text \<open>\<open>Response.raise_for_status\<close>: an HTTPError for a 4xx or 5xx status.\<close>

definition raise_for_status :: "response \<Rightarrow> exn + unit" where
  "raise_for_status r =
     (if 400 \<le> status_code r \<and> status_code r < 500
      then Inl (Exn HTTPError
             (str_int (status_code r) @ '' Client Error: '' @ reason r @ '' for url: '' @ url r))
      else if 500 \<le> status_code r \<and> status_code r < 600
      then Inl (Exn HTTPError
             (str_int (status_code r) @ '' Server Error: '' @ reason r @ '' for url: '' @ url r))
      else Inr ())"

definition type_name :: "json \<Rightarrow> string" where
  "type_name v = (case v of JNull \<Rightarrow> ''NoneType'' | JBool _ \<Rightarrow> ''bool'' | JInt _ \<Rightarrow> ''int''
     | JFloat _ \<Rightarrow> ''float'' | JStr _ \<Rightarrow> ''str'' | JArr _ \<Rightarrow> ''list'' | JObj _ \<Rightarrow> ''dict'')"

definition not_subscriptable :: "json \<Rightarrow> exn" where
  "not_subscriptable v = Exn TypeError (quote (type_name v) @ '' object is not subscriptable'')"

text \<open>\<open>v[k]\<close> for a string key \<open>k\<close>. \<open>str\<close> of a KeyError is the quoted key.\<close>

definition getitem_str :: "json \<Rightarrow> string \<Rightarrow> exn + json" where
  "getitem_str v k = (case v of
       JObj kvs \<Rightarrow> (case map_of kvs k of None \<Rightarrow> Inl (Exn KeyError (quote k)) | Some x \<Rightarrow> Inr x)
     | JArr xs \<Rightarrow> Inl (Exn TypeError ''list indices must be integers or slices, not str'')
     | JStr s \<Rightarrow> Inl (Exn TypeError (''string indices must be integers, not '' @ quote ''str''))
     | _ \<Rightarrow> Inl (not_subscriptable v))"

text \<open>
  \<open>v[-1]\<close>: the last element of a list, the last character of a string; a dict with
  string keys has no key \<open>-1\<close>.
\<close>

definition getitem_last :: "json \<Rightarrow> exn + json" where
  "getitem_last v = (case v of
       JArr xs \<Rightarrow> (if xs = [] then Inl (Exn IndexError ''list index out of range'')
                   else Inr (last xs))
     | JStr s \<Rightarrow> (if s = [] then Inl (Exn IndexError ''string index out of range'')
                  else Inr (JStr [last s]))
     | JObj kvs \<Rightarrow> Inl (Exn KeyError ''-1'')
     | _ \<Rightarrow> Inl (not_subscriptable v))"

definition ascii_lower :: "char \<Rightarrow> char" where
  "ascii_lower c =
     (case map_of (zip ''ABCDEFGHIJKLMNOPQRSTUVWXYZ'' ''abcdefghijklmnopqrstuvwxyz'') c of
        None \<Rightarrow> c | Some l \<Rightarrow> l)"

text \<open>\<open>headers.get(name, default)\<close> on the case-insensitive dictionary.\<close>

definition headers_get :: "(string \<times> string) list \<Rightarrow> string \<Rightarrow> string \<Rightarrow> string" where
  "headers_get hs name dflt =
     (case map_of hs (map ascii_lower name) of None \<Rightarrow> dflt | Some v \<Rightarrow> v)"

text \<open>How an f-string renders a value taken from the JSON document.\<close>

definition py_format :: "env \<Rightarrow> json \<Rightarrow> string" where
  "py_format env v = (case v of
       JNull \<Rightarrow> ''None''
     | JBool b \<Rightarrow> (if b then ''True'' else ''False'')
     | JInt i \<Rightarrow> str_int i
     | JFloat x \<Rightarrow> repr_float env x
     | JStr s \<Rightarrow> s
     | _ \<Rightarrow> repr_container env v)"

subsection \<open>get\_latest\_timestamp\<close>

definition metadata_url :: string where
  "metadata_url = ''https://api.rainviewer.com/public/weather-maps.json''"

definition get_latest_timestamp :: "env \<Rightarrow> json io" where
  "get_latest_timestamp env =
     bind_io (requests_get_io env metadata_url 10) (\<lambda>r.
     bind_io (lift_exn (raise_for_status r)) (\<lambda>_.
     bind_io (lift_exn (json_loads env (content r))) (\<lambda>doc.
     lift_exn
       (bind_exn (getitem_str doc ''radar'') (\<lambda>radar.
        bind_exn (getitem_str radar ''past'') (\<lambda>past.
        bind_exn (getitem_last past) (\<lambda>frame.
        getitem_str frame ''time'')))))))"

subsection \<open>get\_radar\_tile\_by\_latlon\<close>

definition tile_url ::
  "env \<Rightarrow> json \<Rightarrow> int \<Rightarrow> real \<Rightarrow> real \<Rightarrow> int \<Rightarrow> int \<Rightarrow> int \<Rightarrow> int \<Rightarrow> string" where
  "tile_url env timestamp zoom lat lon color tile_size smooth snow =
     ''https://tilecache.rainviewer.com/v2/radar/''
     @ py_format env timestamp @ ''/'' @ str_int tile_size @ ''/'' @ str_int zoom @ ''/''
     @ repr_float env lat @ ''/'' @ repr_float env lon @ ''/'' @ str_int color @ ''/''
     @ str_int smooth @ ''_'' @ str_int snow @ ''.png''"

definition get_radar_tile_by_latlon ::
  "env \<Rightarrow> json \<Rightarrow> int \<Rightarrow> real \<Rightarrow> real \<Rightarrow> int \<Rightarrow> int \<Rightarrow> int \<Rightarrow> int \<Rightarrow> rgba_image option io" where
  "get_radar_tile_by_latlon env timestamp zoom lat lon color tile_size smooth snow =
     (let u = tile_url env timestamp zoom lat lon color tile_size smooth snow in
      bind_io (print_io (''Fetching: '' @ u)) (\<lambda>_.
      bind_io (requests_get_io env u 15) (\<lambda>r.
      if status_code r = 200 \<and> prefix ''image'' (headers_get (headers r) ''Content-Type'' [])
      then bind_io (lift_exn (Image_open_RGBA env (content r))) (\<lambda>img. return_io (Some img))
      else bind_io (print_io (''Failed to load tile. Status: '' @ str_int (status_code r)))
             (\<lambda>_. return_io None))))"

subsection \<open>datetime.utcfromtimestamp and strftime\<close>

text \<open>
  The standard library's conversion, following \<open>_ord2ymd\<close> of CPython's \<open>datetime\<close>:
  day ordinals count from 1 for 0001-01-01, and 1970-01-01 has ordinal 719163.
\<close>

record datetime =
  year :: int
  month :: int
  day :: int
  hour :: int
  minute :: int
  second :: int

definition DAYS_IN_MONTH :: "int list" where
  "DAYS_IN_MONTH = [-1, 31, 28, 31, 30, 31, 30, 31, 31, 30, 31, 30, 31]"

definition DAYS_BEFORE_MONTH :: "int list" where
  "DAYS_BEFORE_MONTH = [-1, 0, 31, 59, 90, 120, 151, 181, 212, 243, 273, 304, 334]"

definition ord2ymd :: "int \<Rightarrow> int \<times> int \<times> int" where
  "ord2ymd ordinal =
     (let n = ordinal - 1;
          n400 = n div 146097; n = n mod 146097;
          n100 = n div 36524; n = n mod 36524;
          n4 = n div 1461; n = n mod 1461;
          n1 = n div 365; n = n mod 365;
          y = n400 * 400 + 1 + n100 * 100 + n4 * 4 + n1
      in if n1 = 4 \<or> n100 = 4 then (y - 1, 12, 31)
         else
           (let leapyear = (n1 = 3 \<and> (n4 \<noteq> 24 \<or> n100 = 3));
                m = (n + 50) div 32;
                preceding = DAYS_BEFORE_MONTH ! nat m + (if m > 2 \<and> leapyear then 1 else 0)
            in if preceding > n
               then (let m' = m - 1;
                         preceding' = preceding
                           - (DAYS_IN_MONTH ! nat m' + (if m' = 2 \<and> leapyear then 1 else 0))
                     in (y, m', n - preceding' + 1))
               else (y, m, n - preceding + 1)))"

text \<open>
  The UTC date and time of a whole number of seconds since the epoch. The years 1 to 9999
  are representable; outside them the constructor raises (CPython reports a ValueError,
  an OverflowError or an OSError depending on the magnitude; the model raises ValueError).
\<close>

definition datetime_of_seconds :: "int \<Rightarrow> exn + datetime" where
  "datetime_of_seconds t =
     (let days = t div 86400; rem = t mod 86400; ordinal = days + 719163
      in if ordinal < 1 \<or> 3652059 < ordinal then Inl (Exn ValueError ''year is out of range'')
         else (case ord2ymd ordinal of (y, m, d) \<Rightarrow>
                 Inr \<lparr> year = y, month = m, day = d, hour = rem div 3600,
                       minute = (rem mod 3600) div 60, second = (rem mod 3600) mod 60 \<rparr>))"

definition round_half_even :: "real \<Rightarrow> int" where
  "round_half_even x =
     (let f = \<lfloor>x\<rfloor>; d = x - of_int f
      in if d < 1 / 2 then f else if 1 / 2 < d then f + 1 else if even f then f else f + 1)"

text \<open>
  \<open>utcfromtimestamp\<close> takes an int (a bool is one) or a float, whose microseconds are
  rounded half to even; any other value is a TypeError.
\<close>

definition utcfromtimestamp :: "json \<Rightarrow> exn + datetime" where
  "utcfromtimestamp v = (case v of
       JInt t \<Rightarrow> datetime_of_seconds t
     | JBool b \<Rightarrow> datetime_of_seconds (if b then 1 else 0)
     | JFloat x \<Rightarrow> datetime_of_seconds (round_half_even (x * 1000000) div 1000000)
     | _ \<Rightarrow> Inl (Exn TypeError
              (quote (type_name v) @ '' object cannot be interpreted as an integer'')))"

text \<open>The directives the script uses; each is zero padded (\<open>%Y\<close> to four digits).\<close>

definition directive :: "datetime \<Rightarrow> char \<Rightarrow> string" where
  "directive dt c =
     (if c = CHR ''Y'' then zero_pad 4 (year dt)
      else if c = CHR ''m'' then zero_pad 2 (month dt)
      else if c = CHR ''d'' then zero_pad 2 (day dt)
      else if c = CHR ''H'' then zero_pad 2 (hour dt)
      else if c = CHR ''M'' then zero_pad 2 (minute dt)
      else [CHR ''%'', c])"

fun strftime :: "datetime \<Rightarrow> string \<Rightarrow> string" where
  "strftime dt [] = []"
| "strftime dt [c] = [c]"
| "strftime dt (c # d # cs) =
     (if c = CHR ''%'' then directive dt d @ strftime dt cs else c # strftime dt (d # cs))"

subsection \<open>The map extent in binary floating point\<close>

text \<open>
  A Python float is an IEEE 754 binary64 number. A finite one is represented by the real
  number that is its value; the two zeros are one value here, since these lines can tell
  them apart only by dividing by them, which Python refuses for either sign.
\<close>

datatype double = Finite real | PosInf | NegInf | NaN

text \<open>
  The exponent range of normal numbers. \<open>binade x\<close> is the exponent \<open>e\<close> with
  \<open>2\<^sup>e \<le> |x| < 2\<^sup>e\<^sup>+\<^sup>1\<close>, kept within that range: below \<open>2\<^sup>-\<^sup>1\<^sup>0\<^sup>2\<^sup>2\<close> the numbers are subnormal
  and share the spacing of the smallest normal ones.
\<close>

definition E_MIN :: int where
  "E_MIN = - 1022"

definition E_MAX :: int where
  "E_MAX = 1023"

definition binade :: "real \<Rightarrow> int" where
  "binade x = (case find (\<lambda>e. \<bar>x\<bar> < 2 powi (e + 1)) [E_MIN..E_MAX] of
                 Some e \<Rightarrow> e | None \<Rightarrow> E_MAX)"

text \<open>
  Rounding to the nearest multiple of the spacing \<open>2\<^sup>e\<^sup>-\<^sup>5\<^sup>2\<close>, ties to the even multiple: the
  default rounding of every float operation.
\<close>

definition round_double :: "real \<Rightarrow> real" where
  "round_double x =
     (let q = 2 powi (binade x - 52) in of_int (round_half_even (x / q)) * q)"

text \<open>The result of an operation whose exact value is \<open>x\<close>: rounded, and infinite on overflow.\<close>

definition fl :: "real \<Rightarrow> double" where
  "fl x =
     (let r = round_double x
      in if 2 ^ 1024 \<le> r then PosInf else if r \<le> - (2 ^ 1024) then NegInf else Finite r)"

text \<open>Negation, \<open>+\<close> and \<open>-\<close> on floats.\<close>

fun float_neg :: "double \<Rightarrow> double" where
  "float_neg (Finite x) = Finite (- x)"
| "float_neg PosInf = NegInf"
| "float_neg NegInf = PosInf"
| "float_neg NaN = NaN"

fun float_add :: "double \<Rightarrow> double \<Rightarrow> double" where
  "float_add (Finite x) (Finite y) = fl (x + y)"
| "float_add NaN b = NaN"
| "float_add a NaN = NaN"
| "float_add PosInf NegInf = NaN"
| "float_add NegInf PosInf = NaN"
| "float_add PosInf b = PosInf"
| "float_add NegInf b = NegInf"
| "float_add a PosInf = PosInf"
| "float_add a NegInf = NegInf"

definition float_sub :: "double \<Rightarrow> double \<Rightarrow> double" where
  "float_sub a b = float_add a (float_neg b)"

text \<open>
  \<open>/\<close> on floats: Python raises \<open>ZeroDivisionError\<close> for a zero divisor, whatever the
  dividend, and follows IEEE 754 otherwise.
\<close>

definition float_truediv :: "double \<Rightarrow> double \<Rightarrow> exn + double" where
  "float_truediv a b =
     (case b of
        Finite y \<Rightarrow>
          if y = 0 then Inl (Exn ZeroDivisionError ''float division by zero'')
          else (case a of
                  Finite x \<Rightarrow> Inr (fl (x / y))
                | PosInf \<Rightarrow> Inr (if 0 < y then PosInf else NegInf)
                | NegInf \<Rightarrow> Inr (if 0 < y then NegInf else PosInf)
                | NaN \<Rightarrow> Inr NaN)
      | NaN \<Rightarrow> Inr NaN
      | _ \<Rightarrow> (case a of Finite x \<Rightarrow> Inr (Finite 0) | _ \<Rightarrow> Inr NaN))"

text \<open>The conversion of an \<open>int\<close> operand to float, which fails when it overflows.\<close>

definition float_of_int :: "int \<Rightarrow> exn + double" where
  "float_of_int i =
     (case fl (of_int i) of
        Finite r \<Rightarrow> Inr (Finite r)
      | _ \<Rightarrow> Inl (Exn OverflowError ''int too large to convert to float''))"

text \<open>
  \<open>delta = 360 / (2 ** zoom)\<close>. For \<open>zoom \<ge> 0\<close> the power is an exact \<open>int\<close> and \<open>/\<close> of two
  \<open>int\<close>s is the correctly rounded quotient. For \<open>zoom < 0\<close> the power is computed in floats,
  after converting \<open>zoom\<close>: it is \<open>2\<^sup>z\<close> down to \<open>zoom = -1074\<close> and \<open>0.0\<close> below, where the
  division raises. (The converted exponent is \<open>zoom\<close> itself up to \<open>2\<^sup>5\<^sup>3\<close> in magnitude, and
  beyond that the power is \<open>0.0\<close> for the one as for the other.)
\<close>

definition tile_delta_f64 :: "int \<Rightarrow> exn + double" where
  "tile_delta_f64 zoom =
     (if 0 \<le> zoom then Inr (fl (360 / 2 ^ nat zoom))
      else (case float_of_int zoom of
              Inl e \<Rightarrow> Inl e
            | Inr z \<Rightarrow> float_truediv (Finite 360) (fl (2 powi zoom))))"

text \<open>
  Lines 56 and 57. \<open>delta / 2\<close> is written four times in the source and has the same value
  each time.
\<close>

record extent_f64 =
  lon_min_f64 :: double
  lon_max_f64 :: double
  lat_min_f64 :: double
  lat_max_f64 :: double

definition tile_extent_f64 :: "double \<Rightarrow> double \<Rightarrow> int \<Rightarrow> exn + extent_f64" where
  "tile_extent_f64 lat lon zoom =
     (case tile_delta_f64 zoom of
        Inl e \<Rightarrow> Inl e
      | Inr delta \<Rightarrow>
          (case float_truediv delta (Finite 2) of
             Inl e \<Rightarrow> Inl e
           | Inr half \<Rightarrow>
               Inr \<lparr> lon_min_f64 = float_sub lon half, lon_max_f64 = float_add lon half,
                     lat_min_f64 = float_sub lat half, lat_max_f64 = float_add lat half \<rparr>))"

subsection \<open>plot\_tile\_on\_map\<close>

text \<open>A plotting call is recorded as attempted, then raises if the library does.\<close>

definition call_io :: "env \<Rightarrow> plot_call \<Rightarrow> unit io" where
  "call_io env c w =
     (let w' = w\<lparr>plot_log := plot_log w @ [c]\<rparr>
      in case plot_raises env c of Some e \<Rightarrow> (Inl e, w') | None \<Rightarrow> (Inr (), w'))"

text \<open>\<open>plt.subplots\<close> opens a figure under the next free number.\<close>

definition plt_subplots :: "env \<Rightarrow> nat io" where
  "plt_subplots env =
     bind_io (call_io env Subplots) (\<lambda>_ w.
       (let fig = Suc (Max (set (0 # open_figures w)))
        in (Inr fig, w\<lparr>open_figures := open_figures w @ [fig]\<rparr>)))"

text \<open>\<open>plt.savefig\<close> writes the file, replacing one of the same name.\<close>

definition plt_savefig :: "env \<Rightarrow> string \<Rightarrow> unit io" where
  "plt_savefig env filename =
     bind_io (call_io env (Savefig filename)) (\<lambda>_ w.
       (Inr (), w\<lparr>files := (files w)(filename \<mapsto> plot_log w)\<rparr>))"

definition plt_close :: "env \<Rightarrow> nat \<Rightarrow> unit io" where
  "plt_close env fig =
     bind_io (call_io env (CloseFigure fig)) (\<lambda>_ w.
       (Inr (), w\<lparr>open_figures := removeAll fig (open_figures w)\<rparr>))"

text \<open>\<open>np.linspace(a, b, num)\<close> for \<open>num > 1\<close>.\<close>

definition linspace :: "real \<Rightarrow> real \<Rightarrow> nat \<Rightarrow> real list" where
  "linspace a b num = map (\<lambda>i. a + real i * ((b - a) / real (num - 1))) [0..<num]"

definition plot_tile_on_map ::
  "env \<Rightarrow> rgba_image \<Rightarrow> real \<Rightarrow> real \<Rightarrow> int \<Rightarrow> json \<Rightarrow> bool \<Rightarrow> unit io" where
  "plot_tile_on_map env img lat lon zoom timestamp save =
     (let ext = tile_extent lat lon zoom in
      bind_io (call_io env RcParamsUpdate) (\<lambda>_.
      bind_io (plt_subplots env) (\<lambda>fig.
      bind_io (call_io env (SetExtent ext)) (\<lambda>_.
      bind_io (call_io env (Imshow img ext)) (\<lambda>_.
      bind_io (call_io env AddFeatureLand) (\<lambda>_.
      bind_io (call_io env Coastlines) (\<lambda>_.
      bind_io (call_io env AddFeatureBorders) (\<lambda>_.
      bind_io (call_io env AddFeatureProvinces) (\<lambda>_.
      bind_io (call_io env (SetXticks (linspace (lon_min ext) (lon_max ext) 9))) (\<lambda>_.
      bind_io (call_io env (SetYticks (linspace (lat_min ext) (lat_max ext) 9))) (\<lambda>_.
      bind_io (call_io env SetXFormatter) (\<lambda>_.
      bind_io (call_io env SetYFormatter) (\<lambda>_.
      bind_io (lift_exn (utcfromtimestamp timestamp)) (\<lambda>dt.
      bind_io (call_io env (Title (''Radar @ '' @ strftime dt ''%Y-%m-%d %H:%MZ''))) (\<lambda>_.
      bind_io
        (if save
         then (let filename = ''radar_'' @ strftime dt ''%Y%m%d_%H%M'' @ ''_z'' @ str_int zoom @ ''.png''
               in bind_io (plt_savefig env filename) (\<lambda>_.
                  print_io (''Saved image as '' @ filename)))
         else return_io ()) (\<lambda>_.
      plt_close env fig))))))))))))))))"

subsection \<open>Main execution\<close>

text \<open>
  The tile fetch is called with its default arguments (colour 6, tile size 256, no
  smoothing, no snow). A PIL image is always truthy, so \<open>if img\<close> tests for None.
  \<open>except Exception\<close> catches every exception of the model.
\<close>

definition main :: "env \<Rightarrow> unit io" where
  "main env =
     bind_io (print_io ''Fetching latest radar image...'') (\<lambda>_.
     try_except
       (bind_io (get_latest_timestamp env) (\<lambda>timestamp.
        bind_io (get_radar_tile_by_latlon env timestamp ZOOM LAT LON 6 256 0 0) (\<lambda>img.
        case img of
          Some tile \<Rightarrow> plot_tile_on_map env tile LAT LON ZOOM timestamp AUTO_SAVE
        | None \<Rightarrow> print_io ''No image available.'')))
       (\<lambda>e. print_io (''Error: '' @ str_exn e)))"

subsection \<open>The specification's reading of the metadata document\<close>

text \<open>
  In the specification's words: the \<open>time\<close> field of the last element of the
  \<open>radar.past\<close> array, when the document has such an array and it is not empty.
\<close>

definition spec_last_past_time :: "json \<Rightarrow> json option" where
  "spec_last_past_time doc = (case doc of
       JObj kvs \<Rightarrow> (case map_of kvs ''radar'' of
           Some (JObj radar) \<Rightarrow> (case map_of radar ''past'' of
               Some (JArr frames) \<Rightarrow>
                 (if frames = [] then None
                  else (case last frames of JObj frame \<Rightarrow> map_of frame ''time'' | _ \<Rightarrow> None))
             | _ \<Rightarrow> None)
         | _ \<Rightarrow> None)
     | _ \<Rightarrow> None)"

subsection \<open>Example environments\<close>

text \<open>
  A server that answers the metadata request with \<open>meta\<close> and every other request with
  \<open>tile\<close>; a JSON parser that reads any non-empty body as \<open>doc\<close>; an image decoder
  that rejects the empty body, as PIL does, and decodes any other body to one transparent
  pixel; plotting calls that raise as \<open>raises\<close> says.
\<close>

definition example_env :: "response \<Rightarrow> response \<Rightarrow> json \<Rightarrow> (plot_call \<Rightarrow> exn option) \<Rightarrow> env" where
  "example_env meta tile doc raises =
     \<lparr> requests_get = (\<lambda>u timeout. if u = metadata_url then Inr meta else Inr tile),
       json_loads = (\<lambda>body. if body = []
          then Inl (Exn JSONDecodeError ''Expecting value: line 1 column 1 (char 0)'')
          else Inr doc),
       Image_open_RGBA = (\<lambda>body. if body = []
          then Inl (Exn UnidentifiedImageError ''cannot identify image file'')
          else Inr (RGBA 1 1 [(0, 0, 0, 0)])),
       plot_raises = raises,
       repr_float = (\<lambda>x. if x = 157 / 10 then ''15.7'' else if x = 1217 / 10 then ''121.7''
          else ''0.0''),
       repr_container = (\<lambda>v. ''[]'') \<rparr>"

definition answer :: "string \<Rightarrow> int \<Rightarrow> string \<Rightarrow> string \<Rightarrow> byte list \<Rightarrow> response" where
  "answer u code phrase ctype body =
     \<lparr> status_code = code, reason = phrase, url = u,
       headers = [(''content-type'', ctype)], content = body \<rparr>"

definition example_doc :: json where
  "example_doc = JObj [(''version'', JStr ''2.0''), (''radar'', JObj [(''past'',
     JArr [JObj [(''time'', JInt 1699999400), (''path'', JStr ''/v2/radar/1699999400'')],
           JObj [(''time'', JInt 1700000000), (''path'', JStr ''/v2/radar/1700000000'')]])])]"

definition no_raise :: "plot_call \<Rightarrow> exn option" where
  "no_raise c = None"

definition empty_world :: world where
  "empty_world = \<lparr> stdout = [], http_log = [], plot_log = [], open_figures = [], files = Map.empty \<rparr>"

subsection \<open>Vocabulary for the plotting proofs\<close>

text \<open>A computation that leaves the set of open figures as it found it.\<close>

definition keeps_figures :: "'a io \<Rightarrow> bool" where
  "keeps_figures m = (\<forall>v. open_figures (snd (m v)) = open_figures v)"

text \<open>
  A computation that, started with figure \<open>fig\<close> open on top of \<open>F\<close>, closes it when it
  returns and leaves it open when it raises.
\<close>

definition releases :: "nat list \<Rightarrow> nat \<Rightarrow> 'a io \<Rightarrow> bool" where
  "releases F fig k = (\<forall>v. open_figures v = F @ [fig] \<longrightarrow>
     (case k v of (Inl e, v') \<Rightarrow> open_figures v' = F @ [fig]
                | (Inr a, v') \<Rightarrow> open_figures v' = F))"

text \<open>The calls plot\_tile\_on\_map makes before it saves, in order.\<close>

definition drawing_calls :: "rgba_image \<Rightarrow> extent \<Rightarrow> datetime \<Rightarrow> plot_call list" where
  "drawing_calls img ext dt =
     [RcParamsUpdate, Subplots, SetExtent ext, Imshow img ext, AddFeatureLand, Coastlines,
      AddFeatureBorders, AddFeatureProvinces,
      SetXticks (linspace (lon_min ext) (lon_max ext) 9),
      SetYticks (linspace (lat_min ext) (lat_max ext) 9),
      SetXFormatter, SetYFormatter, Title (''Radar @ '' @ strftime dt ''%Y-%m-%d %H:%MZ'')]"

text \<open>A file system that refuses the write: \<open>savefig\<close> raises, every other call succeeds.\<close>

definition savefig_denied :: "plot_call \<Rightarrow> exn option" where
  "savefig_denied c = (case c of
       Savefig filename \<Rightarrow> Some (Exn OSError (''[Errno 13] Permission denied: '' @ quote filename))
     | _ \<Rightarrow> None)"

section \<open>Properties\<close>

subsection \<open>Rounding to a double\<close>

lemma find_upto_le:
  assumes "a \<le> k" and "k \<le> b" and "P k"
  shows "\<exists>e. find P [a..b] = Some e \<and> a \<le> e \<and> e \<le> k"
  using assms
proof (induction "nat (k - a)" arbitrary: a)
  case 0
  then have "a = k" by simp
  with 0 show ?case by (simp add: upto_rec1)
next
  case (Suc n)
  then have lt: "a < k" by linarith
  then have u: "[a..b] = a # [a + 1..b]"
    using Suc.prems by (simp add: upto_rec1)
  show ?case
  proof (cases "P a")
    case True
    with u lt show ?thesis by simp
  next
    case False
    have "\<exists>e. find P [a + 1..b] = Some e \<and> a + 1 \<le> e \<and> e \<le> k"
      using Suc.hyps(2) lt Suc.prems by (intro Suc.hyps(1)) linarith+
    with False u show ?thesis by auto
  qed
qed

lemma find_upto_first:
  assumes "a \<le> k" and "k \<le> b" and "P k" and "\<And>j. a \<le> j \<Longrightarrow> j < k \<Longrightarrow> \<not> P j"
  shows "find P [a..b] = Some k"
proof -
  obtain e where e: "find P [a..b] = Some e" "a \<le> e" "e \<le> k"
    using find_upto_le [of a k b P] assms(1-3) by blast
  have "P e"
    using e(1) by (auto simp: find_Some_iff)
  then have "\<not> e < k"
    using assms(4) e(2) by blast
  with e show ?thesis by simp
qed

lemma binade_le:
  assumes "- 1022 \<le> k" and "k \<le> 1023" and "\<bar>x\<bar> < 2 powi (k + 1)"
  shows "binade x \<le> k"
proof -
  have "E_MIN \<le> k" "k \<le> E_MAX"
    using assms(1,2) by (simp_all add: E_MIN_def E_MAX_def)
  then obtain e where "find (\<lambda>e. \<bar>x\<bar> < 2 powi (e + 1)) [E_MIN..E_MAX] = Some e" "e \<le> k"
    using find_upto_le [of E_MIN k E_MAX "\<lambda>e. \<bar>x\<bar> < 2 powi (e + 1)"] assms(3) by blast
  then show ?thesis by (simp add: binade_def)
qed

lemma binade_eq:
  assumes "- 1022 \<le> k" and "k \<le> 1023" and "2 powi k \<le> \<bar>x\<bar>" and "\<bar>x\<bar> < 2 powi (k + 1)"
  shows "binade x = k"
proof -
  have "\<not> \<bar>x\<bar> < 2 powi (j + 1)" if "j < k" for j
  proof -
    have "(2::real) powi (j + 1) \<le> 2 powi k"
      using that by (intro power_int_increasing) simp_all
    with assms(3) show ?thesis by linarith
  qed
  moreover have "E_MIN \<le> k" "k \<le> E_MAX"
    using assms(1,2) by (simp_all add: E_MIN_def E_MAX_def)
  ultimately have "find (\<lambda>e. \<bar>x\<bar> < 2 powi (e + 1)) [E_MIN..E_MAX] = Some k"
    using assms(4) by (intro find_upto_first) blast+
  then show ?thesis by (simp add: binade_def)
qed

lemma round_half_even_error: "\<bar>of_int (round_half_even y) - y\<bar> \<le> 1 / 2"
proof -
  have "of_int \<lfloor>y\<rfloor> \<le> y" "y < of_int \<lfloor>y\<rfloor> + 1"
    by linarith+
  then show ?thesis
    by (auto simp: round_half_even_def Let_def)
qed

lemma round_half_even_of_int: "round_half_even (of_int n) = n"
  by (simp add: round_half_even_def)

lemma round_double_error: "\<bar>round_double x - x\<bar> \<le> 2 powi (binade x - 52) / 2"
proof -
  let ?q = "(2::real) powi (binade x - 52)"
  have q: "0 < ?q" by simp
  have "round_double x - x = (of_int (round_half_even (x / ?q)) - x / ?q) * ?q"
    using q by (simp add: round_double_def Let_def algebra_simps)
  then have "\<bar>round_double x - x\<bar> = \<bar>of_int (round_half_even (x / ?q)) - x / ?q\<bar> * ?q"
    using q by (simp add: abs_mult)
  also have "\<dots> \<le> 1 / 2 * ?q"
    using q round_half_even_error [of "x / ?q"] by (intro mult_right_mono) simp_all
  finally show ?thesis by simp
qed

lemma round_double_near:
  assumes "\<bar>x\<bar> < 256"
  shows "\<bar>round_double x - x\<bar> \<le> 1 / 2 ^ 46"
proof -
  have "binade x \<le> 7"
    using assms by (intro binade_le) simp_all
  then have "(2::real) powi (binade x - 52) \<le> 2 powi (- 45)"
    by (intro power_int_increasing) simp_all
  then have "(2::real) powi (binade x - 52) / 2 \<le> 1 / 2 ^ 46"
    by (simp add: power_int_minus_divide)
  with round_double_error [of x] show ?thesis by linarith
qed

lemma round_double_exact:
  assumes "- 1022 \<le> k" and "k \<le> 1023" and "2 powi k \<le> \<bar>x\<bar>" and "\<bar>x\<bar> < 2 powi (k + 1)"
    and "x = of_int n * 2 powi (k - 52)"
  shows "round_double x = x"
proof -
  have b: "binade x = k"
    using assms(1-4) by (rule binade_eq)
  have d: "x / 2 powi (k - 52) = of_int n"
    using assms(5) by simp
  have "round_double x = of_int n * 2 powi (k - 52)"
    by (simp only: round_double_def Let_def b d round_half_even_of_int)
  then show ?thesis
    using assms(5) by simp
qed

lemma fl_near:
  assumes "\<bar>x\<bar> < 256"
  shows "fl x = Finite (round_double x)"
proof -
  have "\<bar>round_double x - x\<bar> \<le> 1 / 2 ^ 46"
    using assms by (rule round_double_near)
  moreover have "(1::real) / 2 ^ 46 < 1"
    by simp
  ultimately have "\<bar>round_double x\<bar> < 257"
    using assms by linarith
  moreover have "(257::real) < 2 ^ 1024"
    by simp
  ultimately have "\<not> 2 ^ 1024 \<le> round_double x" "\<not> round_double x \<le> - (2 ^ 1024)"
    by linarith+
  then show ?thesis
    by (simp add: fl_def Let_def)
qed

lemma round_double_45:
  assumes "- 1027 \<le> k" and "k \<le> 1018"
  shows "round_double (45 * 2 powi k) = 45 * 2 powi k"
proof -
  have p5: "(2::real) powi (k + 5) = 32 * 2 powi k"
    by (simp add: power_int_add)
  have p6: "(2::real) powi (k + 5 + 1) = 64 * 2 powi k"
    by (simp add: power_int_add)
  have a: "\<bar>45 * (2::real) powi k\<bar> = 45 * 2 powi k"
    by simp
  have p47: "(2::real) powi (k - 47) = 2 powi k / 2 ^ 47"
    by (simp add: power_int_diff)
  have pos: "(0::real) < 2 powi k"
    by simp
  show ?thesis
  proof (rule round_double_exact [where k = "k + 5" and n = "45 * 2 ^ 47"])
    show "- 1022 \<le> k + 5" using assms by simp
    show "k + 5 \<le> 1023" using assms by simp
    show "2 powi (k + 5) \<le> \<bar>45 * (2::real) powi k\<bar>"
      unfolding a p5 using pos by simp
    show "\<bar>45 * (2::real) powi k\<bar> < 2 powi (k + 5 + 1)"
      unfolding a p6 using pos by simp
    show "45 * (2::real) powi k = of_int (45 * 2 ^ 47) * 2 powi (k + 5 - 52)"
      by (simp add: p47)
  qed
qed

lemma tile_delta_45: "tile_delta zoom = 45 * 2 powi (3 - zoom)"
  by (simp add: tile_delta_def power_int_diff)

lemma half_delta_45: "tile_delta zoom / 2 = 45 * 2 powi (2 - zoom)"
  by (simp add: tile_delta_def power_int_diff)

lemma tile_delta_bounds:
  assumes "2 \<le> zoom"
  shows "0 < tile_delta zoom" and "tile_delta zoom \<le> 90"
proof -
  show "0 < tile_delta zoom"
    by (simp add: tile_delta_def)
  have "(2::real) powi 2 \<le> 2 powi zoom"
    using assms by (intro power_int_increasing) simp_all
  then show "tile_delta zoom \<le> 90"
    by (simp add: tile_delta_def field_simps)
qed

lemma tile_delta_lower:
  assumes "zoom \<le> 9"
  shows "1 / 2 < tile_delta zoom"
proof -
  have "(2::real) powi zoom \<le> 2 powi 9"
    using assms by (intro power_int_increasing) simp_all
  then show ?thesis
    by (simp add: tile_delta_def field_simps)
qed

lemma tile_delta_f64_exact:
  assumes "2 \<le> zoom" and "zoom \<le> 9"
  shows "tile_delta_f64 zoom = Inr (Finite (tile_delta zoom))"
proof -
  have e: "tile_delta zoom = 360 / 2 ^ nat zoom"
    using assms by (simp add: tile_delta_def power_int_def)
  have r: "round_double (tile_delta zoom) = tile_delta zoom"
    unfolding tile_delta_45 using assms by (intro round_double_45) simp_all
  have "\<bar>tile_delta zoom\<bar> < 256"
    using tile_delta_bounds [OF assms(1)] by simp
  then have "fl (tile_delta zoom) = Finite (tile_delta zoom)"
    using r by (simp add: fl_near)
  then show ?thesis
    using assms e by (simp add: tile_delta_f64_def)
qed

lemma half_delta_f64_exact:
  assumes "2 \<le> zoom" and "zoom \<le> 9"
  shows "float_truediv (Finite (tile_delta zoom)) (Finite 2) = Inr (Finite (tile_delta zoom / 2))"
proof -
  have r: "round_double (tile_delta zoom / 2) = tile_delta zoom / 2"
    unfolding half_delta_45 using assms by (intro round_double_45) simp_all
  have "\<bar>tile_delta zoom / 2\<bar> < 256"
    using tile_delta_bounds [OF assms(1)] by simp
  then have "fl (tile_delta zoom / 2) = Finite (tile_delta zoom / 2)"
    using r by (simp add: fl_near)
  then show ?thesis
    by (simp add: float_truediv_def)
qed

lemma tile_extent_f64_finite:
  assumes "2 \<le> zoom" and "zoom \<le> 9" and "\<bar>lat\<bar> \<le> 90" and "\<bar>lon\<bar> \<le> 180"
  shows "tile_extent_f64 (Finite lat) (Finite lon) zoom
    = Inr \<lparr> lon_min_f64 = Finite (round_double (lon - tile_delta zoom / 2)),
            lon_max_f64 = Finite (round_double (lon + tile_delta zoom / 2)),
            lat_min_f64 = Finite (round_double (lat - tile_delta zoom / 2)),
            lat_max_f64 = Finite (round_double (lat + tile_delta zoom / 2)) \<rparr>"
proof -
  have b: "0 < tile_delta zoom" "tile_delta zoom \<le> 90"
    using tile_delta_bounds [OF assms(1)] .
  have "\<bar>lon - tile_delta zoom / 2\<bar> < 256" "\<bar>lon + tile_delta zoom / 2\<bar> < 256"
    "\<bar>lat - tile_delta zoom / 2\<bar> < 256" "\<bar>lat + tile_delta zoom / 2\<bar> < 256"
    using b assms(3,4) by linarith+
  then show ?thesis
    by (simp add: tile_extent_f64_def tile_delta_f64_exact [OF assms(1,2)]
        half_delta_f64_exact [OF assms(1,2)] float_sub_def fl_near)
qed

lemma round_sub_inside:
  assumes "\<bar>x - h\<bar> < 256" and "1 / 4 < h"
  shows "round_double (x - h) < x" and "\<bar>x - round_double (x - h) - h\<bar> \<le> 1 / 2 ^ 46"
proof -
  have e: "\<bar>round_double (x - h) - (x - h)\<bar> \<le> 1 / 2 ^ 46"
    using assms(1) by (rule round_double_near)
  have s: "(1::real) / 2 ^ 46 < 1 / 4"
    by simp
  show "round_double (x - h) < x"
    using e s assms(2) by linarith
  show "\<bar>x - round_double (x - h) - h\<bar> \<le> 1 / 2 ^ 46"
    using e by linarith
qed

lemma round_add_inside:
  assumes "\<bar>x + h\<bar> < 256" and "1 / 4 < h"
  shows "x < round_double (x + h)" and "\<bar>round_double (x + h) - x - h\<bar> \<le> 1 / 2 ^ 46"
proof -
  have e: "\<bar>round_double (x + h) - (x + h)\<bar> \<le> 1 / 2 ^ 46"
    using assms(1) by (rule round_double_near)
  have s: "(1::real) / 2 ^ 46 < 1 / 4"
    by simp
  show "x < round_double (x + h)"
    using e s assms(2) by linarith
  show "\<bar>round_double (x + h) - x - h\<bar> \<le> 1 / 2 ^ 46"
    using e by linarith
qed


lemma round_double_at:
  assumes "- 1022 \<le> k" and "k \<le> 1023" and "2 powi k \<le> \<bar>x\<bar>" and "\<bar>x\<bar> < 2 powi (k + 1)"
  shows "round_double x = of_int (round_half_even (x / 2 powi (k - 52))) * 2 powi (k - 52)"
proof -
  have b: "binade x = k"
    using assms by (rule binade_eq)
  show ?thesis
    by (simp only: round_double_def Let_def b)
qed

lemma fl_finite:
  assumes "round_double x = r" and "- (2 ^ 1024) < r" and "r < 2 ^ 1024"
  shows "fl x = Finite r"
  using assms by (simp add: fl_def Let_def)

lemma tile_delta_2: "tile_delta 2 = 90"
  by (simp add: tile_delta_def)

lemma round_double_minus_89_8:
  "round_double (- 6319113227154227 / 2 ^ 46) = - 6319113227154227 / 2 ^ 46"
  by (subst round_double_at [where k = 6]) (simp_all add: round_half_even_def Let_def)

lemma round_double_lat_min:
  "round_double (- 6319113227154227 / 2 ^ 46 - 90 / 2) = - 2371426678787277 / 2 ^ 44"
  by (subst round_double_at [where k = 7]) (simp_all add: round_half_even_def Let_def)

lemma round_double_lat_max:
  "round_double (- 6319113227154227 / 2 ^ 46 + 90 / 2) = - 3152519739159347 / 2 ^ 46"
  by (subst round_double_at [where k = 5]) (simp_all add: round_half_even_def Let_def)

lemma round_double_minus_45: "round_double (0 - 90 / 2) = - 45"
  by (subst round_double_at [where k = 5]) (simp_all add: round_half_even_def Let_def)

lemma round_double_plus_45: "round_double (0 + 90 / 2) = 45"
  by (subst round_double_at [where k = 5]) (simp_all add: round_half_even_def Let_def)

lemma round_double_off_centre:
  "round_double (- 6319113227154227 / 2 ^ 46 - (- 2371426678787277 / 2 ^ 44)) = 45 + 1 / 2 ^ 46"
  by (subst round_double_at [where k = 5]) (simp_all add: round_half_even_def Let_def)

lemma round_double_big_minus: "round_double (10 ^ 18 - 45) = 10 ^ 18"
  by (subst round_double_at [where k = 59]) (simp_all add: round_half_even_def Let_def)

lemma round_double_big_plus: "round_double (10 ^ 18 + 45) = 10 ^ 18"
  by (subst round_double_at [where k = 59]) (simp_all add: round_half_even_def Let_def)

lemma round_double_big: "round_double (10 ^ 18) = 10 ^ 18"
  by (subst round_double_at [where k = 59]) (simp_all add: round_half_even_def Let_def)

lemma binade_ge: "- 1022 \<le> binade x"
proof (cases "find (\<lambda>e. \<bar>x\<bar> < 2 powi (e + 1)) [E_MIN..E_MAX]")
  case None
  then show ?thesis by (simp add: binade_def E_MAX_def)
next
  case (Some e)
  then have "e \<in> set [E_MIN..E_MAX]"
    by (auto simp: find_Some_iff)
  then have "E_MIN \<le> e"
    by simp
  with Some show ?thesis by (simp add: binade_def E_MIN_def)
qed

lemma fl_pow_underflow:
  assumes "zoom \<le> - 1075"
  shows "fl (2 powi zoom) = Finite 0"
proof -
  let ?x = "(2::real) powi zoom"
  have le: "?x \<le> 2 powi (- 1075)"
    using assms by (intro power_int_increasing) simp_all
  have "(2::real) powi (- 1075) < 2 powi (- 1022 + 1)"
    by (intro power_int_strict_increasing) simp_all
  with le have "\<bar>?x\<bar> < 2 powi (- 1022 + 1)"
    by simp
  then have "binade ?x \<le> - 1022"
    by (intro binade_le) simp_all
  with binade_ge [of ?x] have b: "binade ?x = - 1022"
    by linarith
  define y where "y = ?x / 2 powi (- 1074)"
  have "(2::real) powi (- 1075) / 2 powi (- 1074) = 2 powi (- 1075 - (- 1074))"
    by (subst power_int_diff) simp_all
  also have "\<dots> = 1 / 2"
    by (simp add: power_int_minus_divide)
  finally have q: "(2::real) powi (- 1075) / 2 powi (- 1074) = 1 / 2" .
  have "y \<le> 2 powi (- 1075) / 2 powi (- 1074)"
    unfolding y_def using le by (intro divide_right_mono) simp_all
  then have y: "0 < y" "y \<le> 1 / 2"
    unfolding q by (simp_all add: y_def)
  then have f: "\<lfloor>y\<rfloor> = 0"
    by linarith
  have "round_half_even y = 0"
    using y by (simp add: round_half_even_def Let_def f)
  then have "round_double ?x = 0"
    unfolding round_double_def Let_def b by (simp add: y_def)
  then show ?thesis
    by (rule fl_finite) simp_all
qed

lemma float_of_int_minus_1075: "float_of_int (- 1075) = Inr (Finite (- 1075))"
proof -
  have "round_double (- 1075) = - 1075"
    by (subst round_double_at [where k = 10]) (simp_all add: round_half_even_def Let_def)
  then have "fl (- 1075) = Finite (- 1075)"
    by (rule fl_finite) simp_all
  then show ?thesis
    by (simp add: float_of_int_def)
qed

lemma tile_delta_f64_zero_division:
  "tile_delta_f64 (- 1075) = Inl (Exn ZeroDivisionError ''float division by zero'')"
proof -
  have "fl (2 powi (- 1075)) = Finite 0"
    by (rule fl_pow_underflow) simp
  then show ?thesis
    unfolding tile_delta_f64_def float_of_int_minus_1075 float_truediv_def by simp
qed

subsection \<open>The extent\<close>

text \<open>
  C4. For every zoom from 2 to 9 the float \<open>delta\<close> is exactly \<open>360 / 2^zoom\<close>, without
  rounding, and strictly positive. For every latitude within 90 and longitude within 180
  degrees the four edges are the roundings of \<open>lon - delta / 2\<close>, \<open>lon + delta / 2\<close>,
  \<open>lat - delta / 2\<close> and \<open>lat + delta / 2\<close>; the point lies strictly inside the extent in both
  directions, and it is the centre up to that rounding: its distance to each edge differs
  from \<open>delta / 2\<close> by at most \<open>2\<^sup>-\<^sup>4\<^sup>6\<close>. The statement holds for all real coordinates in
  that range, hence for all floats in it.
\<close>

theorem float_extent_around_point:
  assumes "2 \<le> zoom" and "zoom \<le> 9" and "\<bar>lat\<bar> \<le> 90" and "\<bar>lon\<bar> \<le> 180"
  shows "tile_delta_f64 zoom = Inr (Finite (360 / 2 ^ nat zoom)) \<and> (0::real) < 360 / 2 ^ nat zoom
    \<and> tile_extent_f64 (Finite lat) (Finite lon) zoom
        = Inr \<lparr> lon_min_f64 = Finite (round_double (lon - 180 / 2 ^ nat zoom)),
                lon_max_f64 = Finite (round_double (lon + 180 / 2 ^ nat zoom)),
                lat_min_f64 = Finite (round_double (lat - 180 / 2 ^ nat zoom)),
                lat_max_f64 = Finite (round_double (lat + 180 / 2 ^ nat zoom)) \<rparr>
    \<and> round_double (lon - 180 / 2 ^ nat zoom) < lon \<and> lon < round_double (lon + 180 / 2 ^ nat zoom)
    \<and> round_double (lat - 180 / 2 ^ nat zoom) < lat \<and> lat < round_double (lat + 180 / 2 ^ nat zoom)
    \<and> \<bar>lon - round_double (lon - 180 / 2 ^ nat zoom) - 180 / 2 ^ nat zoom\<bar> \<le> 1 / 2 ^ 46
    \<and> \<bar>round_double (lon + 180 / 2 ^ nat zoom) - lon - 180 / 2 ^ nat zoom\<bar> \<le> 1 / 2 ^ 46
    \<and> \<bar>lat - round_double (lat - 180 / 2 ^ nat zoom) - 180 / 2 ^ nat zoom\<bar> \<le> 1 / 2 ^ 46
    \<and> \<bar>round_double (lat + 180 / 2 ^ nat zoom) - lat - 180 / 2 ^ nat zoom\<bar> \<le> 1 / 2 ^ 46"
proof -
  define h :: real where "h = 180 / 2 ^ nat zoom"
  have d: "tile_delta zoom = 360 / 2 ^ nat zoom"
    using assms(1) by (simp add: tile_delta_def power_int_def)
  then have hd: "tile_delta zoom / 2 = h"
    by (simp add: h_def)
  have b: "0 < tile_delta zoom" "tile_delta zoom \<le> 90"
    using tile_delta_bounds [OF assms(1)] .
  have l: "1 / 2 < tile_delta zoom"
    using assms(2) by (rule tile_delta_lower)
  have h: "1 / 4 < h" "h \<le> 45"
    using b l hd by linarith+
  have r: "\<bar>lon - h\<bar> < 256" "\<bar>lon + h\<bar> < 256" "\<bar>lat - h\<bar> < 256" "\<bar>lat + h\<bar> < 256"
    using h assms(3,4) by linarith+
  have 1: "tile_delta_f64 zoom = Inr (Finite (360 / 2 ^ nat zoom))"
    using tile_delta_f64_exact [OF assms(1,2)] d by simp
  have 2: "(0::real) < 360 / 2 ^ nat zoom"
    by simp
  have 3: "tile_extent_f64 (Finite lat) (Finite lon) zoom
        = Inr \<lparr> lon_min_f64 = Finite (round_double (lon - h)),
                lon_max_f64 = Finite (round_double (lon + h)),
                lat_min_f64 = Finite (round_double (lat - h)),
                lat_max_f64 = Finite (round_double (lat + h)) \<rparr>"
    using tile_extent_f64_finite [OF assms] unfolding hd .
  note 4 = round_sub_inside [OF r(1) h(1)] round_add_inside [OF r(2) h(1)]
    round_sub_inside [OF r(3) h(1)] round_add_inside [OF r(4) h(1)]
  show ?thesis
    unfolding h_def [symmetric] using 1 2 3 4 unfolding h_def [symmetric] by blast
qed

theorem float_extent_around_point_witness:
  "(2::int) \<le> 7 \<and> (7::int) \<le> 9 \<and> \<bar>15.75::real\<bar> \<le> 90 \<and> \<bar>121.5::real\<bar> \<le> 180
    \<and> tile_delta_f64 7 = Inr (Finite 2.8125)
    \<and> tile_extent_f64 (Finite 15.75) (Finite 121.5) 7
        = Inr \<lparr> lon_min_f64 = Finite (round_double (121.5 - 1.40625)),
                lon_max_f64 = Finite (round_double (121.5 + 1.40625)),
                lat_min_f64 = Finite (round_double (15.75 - 1.40625)),
                lat_max_f64 = Finite (round_double (15.75 + 1.40625)) \<rparr>
    \<and> round_double (121.5 - 1.40625) < 121.5 \<and> 121.5 < round_double (121.5 + 1.40625)
    \<and> round_double (15.75 - 1.40625) < 15.75 \<and> 15.75 < round_double (15.75 + 1.40625)
    \<and> \<bar>121.5 - round_double (121.5 - 1.40625) - 1.40625\<bar> \<le> 1 / 2 ^ 46
    \<and> \<bar>round_double (121.5 + 1.40625) - 121.5 - 1.40625\<bar> \<le> 1 / 2 ^ 46
    \<and> \<bar>15.75 - round_double (15.75 - 1.40625) - 1.40625\<bar> \<le> 1 / 2 ^ 46
    \<and> \<bar>round_double (15.75 + 1.40625) - 15.75 - 1.40625\<bar> \<le> 1 / 2 ^ 46"
  using float_extent_around_point [of 7 "15.75" "121.5"] by simp

text \<open>
  The distances are not \<open>delta / 2\<close> exactly, and the bounds on the coordinates are needed.
  At zoom 2, where \<open>delta / 2\<close> is 45, and at the latitude \<open>-89.8\<close> (the double
  \<open>-6319113227154227 / 2\<^sup>4\<^sup>6\<close>), the southern edge is \<open>-2371426678787277 / 2\<^sup>4\<^sup>4\<close> and
  \<open>lat - lat_min\<close> is \<open>45 + 2\<^sup>-\<^sup>4\<^sup>6\<close>, as a real number and as a float. At the latitude \<open>1e18\<close>
  both \<open>lat - 45\<close> and \<open>lat + 45\<close> round back to \<open>1e18\<close>: the southern and the northern edge
  are the point's own latitude, which is not strictly between them.
\<close>

theorem float_extent_off_centre_counterexample:
  "fl (- 6319113227154227 / 2 ^ 46) = Finite (- 6319113227154227 / 2 ^ 46)
    \<and> tile_delta_f64 2 = Inr (Finite 90)
    \<and> float_truediv (Finite 90) (Finite 2) = Inr (Finite 45)
    \<and> tile_extent_f64 (Finite (- 6319113227154227 / 2 ^ 46)) (Finite 0) 2
        = Inr \<lparr> lon_min_f64 = Finite (- 45), lon_max_f64 = Finite 45,
                lat_min_f64 = Finite (- 2371426678787277 / 2 ^ 44),
                lat_max_f64 = Finite (- 3152519739159347 / 2 ^ 46) \<rparr>
    \<and> float_sub (Finite (- 6319113227154227 / 2 ^ 46)) (Finite (- 2371426678787277 / 2 ^ 44))
        = Finite (45 + 1 / 2 ^ 46)
    \<and> Finite (45 + 1 / 2 ^ 46) \<noteq> Finite 45
    \<and> fl (10 ^ 18) = Finite (10 ^ 18)
    \<and> tile_extent_f64 (Finite (10 ^ 18)) (Finite 0) 2
        = Inr \<lparr> lon_min_f64 = Finite (- 45), lon_max_f64 = Finite 45,
                lat_min_f64 = Finite (10 ^ 18), lat_max_f64 = Finite (10 ^ 18) \<rparr>"
proof -
  have d: "tile_delta_f64 2 = Inr (Finite 90)"
    using tile_delta_f64_exact [of 2] by (simp add: tile_delta_2)
  have hf: "float_truediv (Finite 90) (Finite 2) = Inr (Finite 45)"
    using half_delta_f64_exact [of 2] by (simp add: tile_delta_2)
  have a: "fl (- 6319113227154227 / 2 ^ 46) = Finite (- 6319113227154227 / 2 ^ 46)"
    by (rule fl_finite [OF round_double_minus_89_8]) simp_all
  have e: "tile_extent_f64 (Finite (- 6319113227154227 / 2 ^ 46)) (Finite 0) 2
        = Inr \<lparr> lon_min_f64 = Finite (- 45), lon_max_f64 = Finite 45,
                lat_min_f64 = Finite (- 2371426678787277 / 2 ^ 44),
                lat_max_f64 = Finite (- 3152519739159347 / 2 ^ 46) \<rparr>"
    using tile_extent_f64_finite [of 2 "- 6319113227154227 / 2 ^ 46" 0]
    by (simp only: tile_delta_2 round_double_lat_min round_double_lat_max
        round_double_minus_45 round_double_plus_45) simp
  have s: "float_sub (Finite (- 6319113227154227 / 2 ^ 46)) (Finite (- 2371426678787277 / 2 ^ 44))
        = Finite (45 + 1 / 2 ^ 46)"
    using fl_finite [OF round_double_off_centre] by (simp add: float_sub_def)
  have n: "Finite (45 + 1 / 2 ^ 46) \<noteq> Finite 45"
    by simp
  have b: "fl (10 ^ 18) = Finite (10 ^ 18)"
    by (rule fl_finite [OF round_double_big]) simp_all
  have bm: "fl (10 ^ 18 - 45) = Finite (10 ^ 18)"
    by (rule fl_finite [OF round_double_big_minus]) simp_all
  have bp: "fl (10 ^ 18 + 45) = Finite (10 ^ 18)"
    by (rule fl_finite [OF round_double_big_plus]) simp_all
  have m45: "fl (0 - 45) = Finite (- 45)"
    using fl_finite [OF round_double_minus_45] by simp
  have p45: "fl (0 + 45) = Finite 45"
    using fl_finite [OF round_double_plus_45] by simp
  have g: "tile_extent_f64 (Finite (10 ^ 18)) (Finite 0) 2
        = Inr \<lparr> lon_min_f64 = Finite (- 45), lon_max_f64 = Finite 45,
                lat_min_f64 = Finite (10 ^ 18), lat_max_f64 = Finite (10 ^ 18) \<rparr>"
    unfolding tile_extent_f64_def d using hf bm bp m45 p45 by (simp add: float_sub_def)
  from a d hf e s n b g show ?thesis
    by (intro conjI)
qed


subsection \<open>Running the fetchers\<close>

lemmas io_defs = bind_io_def return_io_def lift_exn_def try_except_def print_io_def
  requests_get_io_def

lemmas fmt_defs = str_int_def str_nat.simps digit_char_def quote_def

lemma get_latest_timestamp_world:
  "snd (get_latest_timestamp env w) = w\<lparr>http_log := http_log w @ [(metadata_url, 10)]\<rparr>"
  by (simp add: get_latest_timestamp_def io_defs split: sum.splits)

lemma get_latest_timestamp_outcome:
  "fst (get_latest_timestamp env w) =
     bind_exn (requests_get env metadata_url 10) (\<lambda>r.
     bind_exn (raise_for_status r) (\<lambda>_.
     bind_exn (json_loads env (content r)) (\<lambda>doc.
     bind_exn (getitem_str doc ''radar'') (\<lambda>radar.
     bind_exn (getitem_str radar ''past'') (\<lambda>past.
     bind_exn (getitem_last past) (\<lambda>frame.
     getitem_str frame ''time''))))))"
  by (simp add: get_latest_timestamp_def io_defs bind_exn_def split: sum.splits)

lemma get_latest_timestamp_any_world:
  "fst (get_latest_timestamp env w') = fst (get_latest_timestamp env w)"
  by (simp only: get_latest_timestamp_outcome)

lemma lookup_chain_value:
  "spec_last_past_time doc = Some t \<Longrightarrow>
     bind_exn (getitem_str doc ''radar'') (\<lambda>radar.
     bind_exn (getitem_str radar ''past'') (\<lambda>past.
     bind_exn (getitem_last past) (\<lambda>frame.
     getitem_str frame ''time''))) = Inr t"
  by (auto simp: spec_last_past_time_def bind_exn_def getitem_str_def getitem_last_def
      split: json.splits option.splits if_splits)

lemma lookup_chain_raises:
  "spec_last_past_time doc = None \<Longrightarrow>
     \<exists>e. bind_exn (getitem_str doc ''radar'') (\<lambda>radar.
     bind_exn (getitem_str radar ''past'') (\<lambda>past.
     bind_exn (getitem_last past) (\<lambda>frame.
     getitem_str frame ''time''))) = Inl e"
  by (auto simp: spec_last_past_time_def bind_exn_def getitem_str_def getitem_last_def
      split: json.splits option.splits if_splits)

lemma tile_fetch_run:
  "get_radar_tile_by_latlon env timestamp zoom lat lon color tile_size smooth snow w =
     (let u = tile_url env timestamp zoom lat lon color tile_size smooth snow;
          w1 = w\<lparr>stdout := stdout w @ [''Fetching: '' @ u], http_log := http_log w @ [(u, 15)]\<rparr>
      in case requests_get env u 15 of
           Inl e \<Rightarrow> (Inl e, w1)
         | Inr r \<Rightarrow>
             if status_code r = 200 \<and> prefix ''image'' (headers_get (headers r) ''Content-Type'' [])
             then (case Image_open_RGBA env (content r) of
                     Inl e \<Rightarrow> (Inl e, w1) | Inr img \<Rightarrow> (Inr (Some img), w1))
             else (Inr None,
                   w1\<lparr>stdout := stdout w1 @ [''Failed to load tile. Status: '' @ str_int (status_code r)]\<rparr>))"
  by (simp add: get_radar_tile_by_latlon_def io_defs Let_def split: sum.splits)

lemma tile_fetch_any_world:
  "fst (get_radar_tile_by_latlon env timestamp zoom lat lon color tile_size smooth snow w')
     = fst (get_radar_tile_by_latlon env timestamp zoom lat lon color tile_size smooth snow w)"
  by (simp add: tile_fetch_run Let_def split: sum.splits)

lemma example_tile_url:
  "tile_url (example_env meta tile doc raises) (JInt 1700000000) ZOOM LAT LON 6 256 0 0
     = ''https://tilecache.rainviewer.com/v2/radar/1700000000/256/7/15.7/121.7/6/0_0.png''"
  by (simp add: tile_url_def example_env_def py_format_def fmt_defs ZOOM_def LAT_def LON_def)

subsection \<open>The timestamp fetch\<close>

text \<open>
  C7. When the metadata request is answered with a status outside 400 to 599 and the body
  parses as JSON, get\_latest\_timestamp returns exactly the \<open>time\<close> field of the last
  element of the \<open>radar.past\<close> array. When the document has no such non-empty array (or
  its last element has no \<open>time\<close>), the call raises and returns nothing: a KeyError
  for a missing \<open>radar\<close> or \<open>past\<close> key, an IndexError for an empty array.
\<close>

theorem get_latest_timestamp_last_past_time:
  assumes "requests_get env metadata_url 10 = Inr r"
    and "status_code r < 400 \<or> 600 \<le> status_code r"
    and "json_loads env (content r) = Inr doc"
  shows "(spec_last_past_time doc = Some t \<longrightarrow> fst (get_latest_timestamp env w) = Inr t)
    \<and> (spec_last_past_time doc = None \<longrightarrow> (\<exists>e. fst (get_latest_timestamp env w) = Inl e))
    \<and> (doc = JObj kvs \<and> map_of kvs ''radar'' = None
         \<longrightarrow> fst (get_latest_timestamp env w) = Inl (Exn KeyError (quote ''radar'')))
    \<and> (doc = JObj kvs \<and> map_of kvs ''radar'' = Some (JObj radar) \<and> map_of radar ''past'' = None
         \<longrightarrow> fst (get_latest_timestamp env w) = Inl (Exn KeyError (quote ''past'')))
    \<and> (doc = JObj kvs \<and> map_of kvs ''radar'' = Some (JObj radar)
           \<and> map_of radar ''past'' = Some (JArr [])
         \<longrightarrow> fst (get_latest_timestamp env w) = Inl (Exn IndexError ''list index out of range''))"
proof -
  have ok: "raise_for_status r = Inr ()"
    using assms(2) by (auto simp: raise_for_status_def)
  have run: "fst (get_latest_timestamp env w) =
     bind_exn (getitem_str doc ''radar'') (\<lambda>radar.
     bind_exn (getitem_str radar ''past'') (\<lambda>past.
     bind_exn (getitem_last past) (\<lambda>frame.
     getitem_str frame ''time'')))"
    by (simp add: get_latest_timestamp_outcome assms(1,3) ok bind_exn_def)
  have a: "spec_last_past_time doc = Some t \<longrightarrow> fst (get_latest_timestamp env w) = Inr t"
    by (simp add: run lookup_chain_value)
  have b: "spec_last_past_time doc = None \<longrightarrow> (\<exists>e. fst (get_latest_timestamp env w) = Inl e)"
    by (simp add: run lookup_chain_raises)
  have c: "doc = JObj kvs \<and> map_of kvs ''radar'' = None
         \<longrightarrow> fst (get_latest_timestamp env w) = Inl (Exn KeyError (quote ''radar''))"
    by (simp add: run bind_exn_def getitem_str_def)
  have d: "doc = JObj kvs \<and> map_of kvs ''radar'' = Some (JObj radar) \<and> map_of radar ''past'' = None
         \<longrightarrow> fst (get_latest_timestamp env w) = Inl (Exn KeyError (quote ''past''))"
    by (simp add: run bind_exn_def getitem_str_def)
  have e: "doc = JObj kvs \<and> map_of kvs ''radar'' = Some (JObj radar)
           \<and> map_of radar ''past'' = Some (JArr [])
         \<longrightarrow> fst (get_latest_timestamp env w) = Inl (Exn IndexError ''list index out of range'')"
    by (simp add: run bind_exn_def getitem_str_def getitem_last_def)
  from a b c d e show ?thesis by blast
qed

theorem get_latest_timestamp_last_past_time_witness:
  "fst (get_latest_timestamp
          (example_env (answer metadata_url 200 ''OK'' ''application/json'' [123, 125])
             (answer [] 404 ''Not Found'' ''text/html'' []) example_doc no_raise) empty_world)
     = Inr (JInt 1700000000)
   \<and> fst (get_latest_timestamp
          (example_env (answer metadata_url 200 ''OK'' ''application/json'' [123, 125])
             (answer [] 404 ''Not Found'' ''text/html'' [])
             (JObj [(''radar'', JObj [(''past'', JArr [])])]) no_raise) empty_world)
     = Inl (Exn IndexError ''list index out of range'')"
proof -
  let ?meta = "answer metadata_url 200 ''OK'' ''application/json'' [123, 125]"
  let ?tile = "answer [] 404 ''Not Found'' ''text/html'' []"
  let ?e1 = "example_env ?meta ?tile example_doc no_raise"
  let ?e2 = "example_env ?meta ?tile (JObj [(''radar'', JObj [(''past'', JArr [])])]) no_raise"
  have g1: "requests_get ?e1 metadata_url 10 = Inr ?meta"
    by (simp add: example_env_def)
  have s1: "status_code ?meta < 400 \<or> 600 \<le> status_code ?meta"
    by (simp add: answer_def)
  have j1: "json_loads ?e1 (content ?meta) = Inr example_doc"
    by (simp add: example_env_def answer_def)
  have v1: "spec_last_past_time example_doc = Some (JInt 1700000000)"
    by (simp add: spec_last_past_time_def example_doc_def)
  have g2: "requests_get ?e2 metadata_url 10 = Inr ?meta"
    by (simp add: example_env_def)
  have j2: "json_loads ?e2 (content ?meta) = Inr (JObj [(''radar'', JObj [(''past'', JArr [])])])"
    by (simp add: example_env_def answer_def)
  have m2: "map_of [(''radar'', JObj [(''past'', JArr [])])] ''radar'' = Some (JObj [(''past'', JArr [])])"
    by simp
  have p2: "map_of [(''past'', JArr [])] ''past'' = Some (JArr [])"
    by simp
  show ?thesis
    using get_latest_timestamp_last_past_time [OF g1 s1 j1, of "JInt 1700000000" empty_world]
      get_latest_timestamp_last_past_time [OF g2 s1 j2, of _ empty_world
        "[(''radar'', JObj [(''past'', JArr [])])]" "[(''past'', JArr [])]"]
      v1 m2 p2
    by simp
qed

subsection \<open>The tile fetch\<close>

text \<open>
  C1, amended. For every tile request that receives a response: a bitmap is returned only
  if the status is exactly 200 and the Content-Type starts with \<open>image\<close>; when both
  hold, the result is the decoder's, that is the decoded bitmap if the body decodes and the
  decoder's exception otherwise; in every other case the result is None, nothing is
  raised, and the status has been printed after the line naming the URL.
\<close>

theorem tile_fetch_result:
  assumes "requests_get env (tile_url env timestamp zoom lat lon color tile_size smooth snow) 15 = Inr r"
  shows "((\<exists>img. fst (get_radar_tile_by_latlon env timestamp zoom lat lon color tile_size smooth snow w)
              = Inr (Some img))
          \<longrightarrow> status_code r = 200 \<and> prefix ''image'' (headers_get (headers r) ''Content-Type'' []))
    \<and> (status_code r = 200 \<and> prefix ''image'' (headers_get (headers r) ''Content-Type'' [])
          \<longrightarrow> fst (get_radar_tile_by_latlon env timestamp zoom lat lon color tile_size smooth snow w)
              = (case Image_open_RGBA env (content r) of Inl e \<Rightarrow> Inl e | Inr img \<Rightarrow> Inr (Some img)))
    \<and> (status_code r \<noteq> 200 \<or> \<not> prefix ''image'' (headers_get (headers r) ''Content-Type'' [])
          \<longrightarrow> get_radar_tile_by_latlon env timestamp zoom lat lon color tile_size smooth snow w
              = (Inr None,
                 w\<lparr>stdout := stdout w
                      @ [''Fetching: '' @ tile_url env timestamp zoom lat lon color tile_size smooth snow,
                         ''Failed to load tile. Status: '' @ str_int (status_code r)],
                   http_log := http_log w
                      @ [(tile_url env timestamp zoom lat lon color tile_size smooth snow, 15)]\<rparr>))"
  using assms by (auto simp: tile_fetch_run Let_def split: sum.splits)

theorem tile_fetch_result_witness:
  "get_radar_tile_by_latlon
      (example_env (answer metadata_url 200 ''OK'' ''application/json'' [123, 125])
         (answer [] 404 ''Not Found'' ''text/html'' []) example_doc no_raise)
      (JInt 1700000000) ZOOM LAT LON 6 256 0 0 empty_world
    = (Inr None,
       empty_world\<lparr>stdout :=
           [''Fetching: https://tilecache.rainviewer.com/v2/radar/1700000000/256/7/15.7/121.7/6/0_0.png'',
            ''Failed to load tile. Status: 404''],
         http_log :=
           [(''https://tilecache.rainviewer.com/v2/radar/1700000000/256/7/15.7/121.7/6/0_0.png'', 15)]\<rparr>)
   \<and> fst (get_radar_tile_by_latlon
      (example_env (answer metadata_url 200 ''OK'' ''application/json'' [123, 125])
         (answer [] 200 ''OK'' ''image/png'' [137, 80, 78, 71]) example_doc no_raise)
      (JInt 1700000000) ZOOM LAT LON 6 256 0 0 empty_world)
    = Inr (Some (RGBA 1 1 [(0, 0, 0, 0)]))"
proof -
  let ?meta = "answer metadata_url 200 ''OK'' ''application/json'' [123, 125]"
  let ?t404 = "answer [] 404 ''Not Found'' ''text/html'' []"
  let ?t200 = "answer [] 200 ''OK'' ''image/png'' [137, 80, 78, 71]"
  let ?e1 = "example_env ?meta ?t404 example_doc no_raise"
  let ?e2 = "example_env ?meta ?t200 example_doc no_raise"
  have g1: "requests_get ?e1 (tile_url ?e1 (JInt 1700000000) ZOOM LAT LON 6 256 0 0) 15 = Inr ?t404"
    by (simp add: example_tile_url) (simp add: example_env_def metadata_url_def)
  have g2: "requests_get ?e2 (tile_url ?e2 (JInt 1700000000) ZOOM LAT LON 6 256 0 0) 15 = Inr ?t200"
    by (simp add: example_tile_url) (simp add: example_env_def metadata_url_def)
  have s1: "status_code ?t404 = 404" "str_int 404 = ''404''"
    by (simp_all add: answer_def fmt_defs)
  have s2: "status_code ?t200 = 200"
    "prefix ''image'' (headers_get (headers ?t200) ''Content-Type'' [])"
    "Image_open_RGBA ?e2 (content ?t200) = Inr (RGBA 1 1 [(0, 0, 0, 0)])"
    by (simp_all add: answer_def headers_get_def ascii_lower_def example_env_def)
  show ?thesis
    using tile_fetch_result [OF g1, of empty_world] tile_fetch_result [OF g2, of empty_world]
    by (simp add: s1 s2 example_tile_url empty_world_def)
qed

text \<open>
  C1 as stated fails: a response with status 200 and Content-Type \<open>image/png\<close> whose
  body is empty does not decode, and get\_radar\_tile\_by\_latlon raises instead of returning
  a bitmap.
\<close>

theorem tile_fetch_undecodable_counterexample:
  "status_code (answer [] 200 ''OK'' ''image/png'' []) = 200
   \<and> prefix ''image'' (headers_get (headers (answer [] 200 ''OK'' ''image/png'' [])) ''Content-Type'' [])
   \<and> requests_get
        (example_env (answer metadata_url 200 ''OK'' ''application/json'' [123, 125])
           (answer [] 200 ''OK'' ''image/png'' []) example_doc no_raise)
        (tile_url
           (example_env (answer metadata_url 200 ''OK'' ''application/json'' [123, 125])
              (answer [] 200 ''OK'' ''image/png'' []) example_doc no_raise)
           (JInt 1700000000) ZOOM LAT LON 6 256 0 0) 15
      = Inr (answer [] 200 ''OK'' ''image/png'' [])
   \<and> fst (get_radar_tile_by_latlon
        (example_env (answer metadata_url 200 ''OK'' ''application/json'' [123, 125])
           (answer [] 200 ''OK'' ''image/png'' []) example_doc no_raise)
        (JInt 1700000000) ZOOM LAT LON 6 256 0 0 empty_world)
      = Inl (Exn UnidentifiedImageError ''cannot identify image file'')"
  by (simp add: tile_fetch_run example_tile_url Let_def)
     (simp add: example_env_def answer_def headers_get_def ascii_lower_def metadata_url_def)

text \<open>
  C8. The tile URL is the fixed template filled with the arguments, and nothing else
  influences it: in any two worlds, and against any two networks and decoders, the request
  issued by get\_radar\_tile\_by\_latlon for the same arguments goes to the same URL.
\<close>

theorem tile_url_pure:
  assumes "repr_float env' = repr_float env" and "repr_container env' = repr_container env"
  shows "tile_url env timestamp zoom lat lon color tile_size smooth snow
      = ''https://tilecache.rainviewer.com/v2/radar/'' @ py_format env timestamp @ ''/''
        @ str_int tile_size @ ''/'' @ str_int zoom @ ''/'' @ repr_float env lat @ ''/''
        @ repr_float env lon @ ''/'' @ str_int color @ ''/'' @ str_int smooth @ ''_''
        @ str_int snow @ ''.png''
    \<and> tile_url env' timestamp zoom lat lon color tile_size smooth snow
      = tile_url env timestamp zoom lat lon color tile_size smooth snow
    \<and> http_log (snd (get_radar_tile_by_latlon env timestamp zoom lat lon color tile_size smooth snow w))
      = http_log w @ [(tile_url env timestamp zoom lat lon color tile_size smooth snow, 15)]
    \<and> http_log (snd (get_radar_tile_by_latlon env' timestamp zoom lat lon color tile_size smooth snow w'))
      = http_log w' @ [(tile_url env timestamp zoom lat lon color tile_size smooth snow, 15)]"
proof -
  have f: "py_format env' timestamp = py_format env timestamp"
    using assms by (simp add: py_format_def split: json.splits)
  have same: "tile_url env' timestamp zoom lat lon color tile_size smooth snow
      = tile_url env timestamp zoom lat lon color tile_size smooth snow"
    using assms(1) f by (simp add: tile_url_def)
  have l: "\<And>e v. http_log (snd (get_radar_tile_by_latlon e timestamp zoom lat lon color tile_size smooth snow v))
      = http_log v @ [(tile_url e timestamp zoom lat lon color tile_size smooth snow, 15)]"
    by (simp add: tile_fetch_run Let_def split: sum.splits)
  show ?thesis
    by (simp add: l same) (simp add: tile_url_def)
qed

theorem tile_url_pure_witness:
  "http_log (snd (get_radar_tile_by_latlon
      (example_env (answer metadata_url 200 ''OK'' ''application/json'' [123, 125])
         (answer [] 404 ''Not Found'' ''text/html'' []) example_doc no_raise)
      (JInt 1700000000) ZOOM LAT LON 6 256 0 0 empty_world))
    = [(''https://tilecache.rainviewer.com/v2/radar/1700000000/256/7/15.7/121.7/6/0_0.png'', 15)]
   \<and> http_log (snd (get_radar_tile_by_latlon
      (example_env (answer metadata_url 200 ''OK'' ''application/json'' [123, 125])
         (answer [] 200 ''OK'' ''image/png'' [137, 80, 78, 71]) JNull no_raise)
      (JInt 1700000000) ZOOM LAT LON 6 256 0 0
      (empty_world\<lparr>stdout := [''earlier output''], http_log := [(metadata_url, 10)]\<rparr>)))
    = [(metadata_url, 10),
       (''https://tilecache.rainviewer.com/v2/radar/1700000000/256/7/15.7/121.7/6/0_0.png'', 15)]"
proof -
  let ?meta = "answer metadata_url 200 ''OK'' ''application/json'' [123, 125]"
  let ?e = "example_env ?meta (answer [] 404 ''Not Found'' ''text/html'' []) example_doc no_raise"
  let ?e' = "example_env ?meta (answer [] 200 ''OK'' ''image/png'' [137, 80, 78, 71]) JNull no_raise"
  have a: "repr_float ?e' = repr_float ?e"
    by (simp add: example_env_def)
  have b: "repr_container ?e' = repr_container ?e"
    by (simp add: example_env_def)
  show ?thesis
    using tile_url_pure [OF a b, of "JInt 1700000000" ZOOM LAT LON 6 256 0 0 empty_world
        "empty_world\<lparr>stdout := [''earlier output''], http_log := [(metadata_url, 10)]\<rparr>"]
    by (simp add: example_tile_url empty_world_def)
qed

subsection \<open>The main program\<close>

text \<open>
  C2. Whenever get\_latest\_timestamp raises, the main program prints one line
  \<open>Error: \<close> followed by the exception's message, issues no tile request, makes no
  plotting call, and ends normally: the only changes to the world are the two printed lines
  and the metadata request.
\<close>

theorem main_timestamp_failure:
  assumes "fst (get_latest_timestamp env w) = Inl e"
  shows "main env w
     = (Inr (),
        w\<lparr>stdout := stdout w @ [''Fetching latest radar image...'', ''Error: '' @ str_exn e],
          http_log := http_log w @ [(metadata_url, 10)]\<rparr>)"
proof -
  let ?w1 = "w\<lparr>stdout := stdout w @ [''Fetching latest radar image...'']\<rparr>"
  have f: "fst (get_latest_timestamp env ?w1) = Inl e"
    using assms by (simp only: get_latest_timestamp_any_world [of env ?w1 w])
  have s: "snd (get_latest_timestamp env ?w1) = ?w1\<lparr>http_log := http_log ?w1 @ [(metadata_url, 10)]\<rparr>"
    by (rule get_latest_timestamp_world)
  have r: "get_latest_timestamp env ?w1
      = (Inl e, ?w1\<lparr>http_log := http_log ?w1 @ [(metadata_url, 10)]\<rparr>)"
    using f s by (simp add: prod_eq_iff)
  show ?thesis
    by (simp add: main_def bind_io_def try_except_def print_io_def r)
qed

theorem main_timestamp_failure_witness:
  "main (example_env (answer metadata_url 500 ''Internal Server Error'' ''text/html'' [])
           (answer [] 200 ''OK'' ''image/png'' [137, 80, 78, 71]) example_doc no_raise) empty_world
     = (Inr (),
        empty_world\<lparr>stdout := [''Fetching latest radar image...'',
            ''Error: 500 Server Error: Internal Server Error for url: https://api.rainviewer.com/public/weather-maps.json''],
          http_log := [(''https://api.rainviewer.com/public/weather-maps.json'', 10)]\<rparr>)"
proof -
  let ?env = "example_env (answer metadata_url 500 ''Internal Server Error'' ''text/html'' [])
           (answer [] 200 ''OK'' ''image/png'' [137, 80, 78, 71]) example_doc no_raise"
  have f: "fst (get_latest_timestamp ?env empty_world)
     = Inl (Exn HTTPError
        ''500 Server Error: Internal Server Error for url: https://api.rainviewer.com/public/weather-maps.json'')"
    by (simp add: get_latest_timestamp_outcome bind_exn_def raise_for_status_def fmt_defs
        example_env_def answer_def metadata_url_def)
  show ?thesis
    using main_timestamp_failure [OF f]
    by (simp add: empty_world_def metadata_url_def)
qed

text \<open>
  C3. Whenever the tile fetch returns None, the main program ends normally, its last
  printed line is \<open>No image available.\<close>, and no plotting call is made: no figure is
  opened and no file is written.
\<close>

theorem main_no_image:
  assumes "fst (get_latest_timestamp env w) = Inr timestamp"
    and "fst (get_radar_tile_by_latlon env timestamp ZOOM LAT LON 6 256 0 0 w) = Inr None"
  shows "fst (main env w) = Inr ()
    \<and> last (stdout (snd (main env w))) = ''No image available.''
    \<and> plot_log (snd (main env w)) = plot_log w
    \<and> open_figures (snd (main env w)) = open_figures w
    \<and> files (snd (main env w)) = files w
    \<and> http_log (snd (main env w))
        = http_log w @ [(metadata_url, 10), (tile_url env timestamp ZOOM LAT LON 6 256 0 0, 15)]"
proof -
  let ?w2 = "w\<lparr>stdout := stdout w @ [''Fetching latest radar image...''],
                http_log := http_log w @ [(metadata_url, 10)]\<rparr>"
  have r: "get_latest_timestamp env v
      = (Inr timestamp, v\<lparr>http_log := http_log v @ [(metadata_url, 10)]\<rparr>)" for v
    using assms(1) get_latest_timestamp_world [of env v]
      get_latest_timestamp_any_world [of env v w]
    by (simp add: prod_eq_iff)
  have t: "fst (get_radar_tile_by_latlon env timestamp ZOOM LAT LON 6 256 0 0 ?w2) = Inr None"
    using assms(2)
    by (simp only: tile_fetch_any_world [of env timestamp ZOOM LAT LON 6 256 0 0 ?w2 w])
  obtain w3 where g: "get_radar_tile_by_latlon env timestamp ZOOM LAT LON 6 256 0 0 ?w2 = (Inr None, w3)"
    using t by (cases "get_radar_tile_by_latlon env timestamp ZOOM LAT LON 6 256 0 0 ?w2") simp
  have w3: "plot_log w3 = plot_log w \<and> open_figures w3 = open_figures w \<and> files w3 = files w
      \<and> http_log w3 = http_log w @ [(metadata_url, 10), (tile_url env timestamp ZOOM LAT LON 6 256 0 0, 15)]"
    using g by (auto simp: tile_fetch_run Let_def split: sum.splits if_splits)
  have m: "main env w = (Inr (), w3\<lparr>stdout := stdout w3 @ [''No image available.'']\<rparr>)"
    by (simp add: main_def bind_io_def try_except_def print_io_def r g)
  show ?thesis
    using w3 by (simp add: m)
qed

theorem main_no_image_witness:
  "main (example_env (answer metadata_url 200 ''OK'' ''application/json'' [123, 125])
           (answer [] 404 ''Not Found'' ''text/html'' []) example_doc no_raise) empty_world
     = (Inr (),
        empty_world\<lparr>stdout := [''Fetching latest radar image...'',
            ''Fetching: https://tilecache.rainviewer.com/v2/radar/1700000000/256/7/15.7/121.7/6/0_0.png'',
            ''Failed to load tile. Status: 404'', ''No image available.''],
          http_log := [(''https://api.rainviewer.com/public/weather-maps.json'', 10),
            (''https://tilecache.rainviewer.com/v2/radar/1700000000/256/7/15.7/121.7/6/0_0.png'', 15)]\<rparr>)"
proof -
  let ?env = "example_env (answer metadata_url 200 ''OK'' ''application/json'' [123, 125])
           (answer [] 404 ''Not Found'' ''text/html'' []) example_doc no_raise"
  have f: "fst (get_latest_timestamp ?env empty_world) = Inr (JInt 1700000000)"
    by (simp add: get_latest_timestamp_outcome bind_exn_def raise_for_status_def
        getitem_str_def getitem_last_def example_env_def answer_def example_doc_def)
  have t: "get_radar_tile_by_latlon ?env (JInt 1700000000) ZOOM LAT LON 6 256 0 0 w
     = (Inr None, w\<lparr>stdout := stdout w @
          [''Fetching: https://tilecache.rainviewer.com/v2/radar/1700000000/256/7/15.7/121.7/6/0_0.png'',
           ''Failed to load tile. Status: 404''],
         http_log := http_log w @
          [(''https://tilecache.rainviewer.com/v2/radar/1700000000/256/7/15.7/121.7/6/0_0.png'', 15)]\<rparr>)" for w
    by (simp add: tile_fetch_run example_tile_url Let_def)
       (simp add: example_env_def answer_def headers_get_def ascii_lower_def metadata_url_def fmt_defs)
  have g: "fst (get_radar_tile_by_latlon ?env (JInt 1700000000) ZOOM LAT LON 6 256 0 0 empty_world) = Inr None"
    by (simp add: t)
  have l: "last (stdout (snd (main ?env empty_world))) = ''No image available.''"
    using main_no_image [OF f g] by simp
  have w: "get_latest_timestamp ?env v = (Inr (JInt 1700000000), v\<lparr>http_log := http_log v @ [(metadata_url, 10)]\<rparr>)" for v
    using f get_latest_timestamp_world [of ?env v] get_latest_timestamp_any_world [of ?env v empty_world]
    by (simp add: prod_eq_iff)
  show ?thesis
    using l
    by (simp add: main_def bind_io_def try_except_def print_io_def w t)
       (simp add: empty_world_def metadata_url_def)
qed

subsection \<open>Figures and plotting calls\<close>

lemma fresh_figure: "Suc (Max (set (0 # fs))) \<notin> set fs"
proof
  assume "Suc (Max (set (0 # fs))) \<in> set fs"
  then have "Suc (Max (set (0 # fs))) \<le> Max (set (0 # fs))"
    by (intro Max_ge) simp_all
  then show False by simp
qed

lemma removeAll_fresh:
  "removeAll (Suc (Max (set (0 # fs)))) fs = fs"
  by (rule removeAll_id) (rule fresh_figure)

lemma keeps_call: "keeps_figures (call_io env c)"
  by (simp add: keeps_figures_def call_io_def Let_def split: option.splits)

lemma keeps_lift: "keeps_figures (lift_exn r)"
  by (simp add: keeps_figures_def lift_exn_def)

lemma keeps_print: "keeps_figures (print_io s)"
  by (simp add: keeps_figures_def print_io_def)

lemma keeps_return: "keeps_figures (return_io a)"
  by (simp add: keeps_figures_def return_io_def)

lemma keeps_bind:
  assumes "keeps_figures m" and "\<And>a. keeps_figures (f a)"
  shows "keeps_figures (bind_io m f)"
  unfolding keeps_figures_def
proof
  fix v :: world
  show "open_figures (snd (bind_io m f v)) = open_figures v"
  proof (cases "m v")
    case (Pair r v')
    have a: "open_figures v' = open_figures v"
      using assms(1) Pair by (auto simp: keeps_figures_def dest: spec [of _ v])
    show ?thesis
    proof (cases r)
      case (Inl e)
      then show ?thesis using Pair a by (simp add: bind_io_def)
    next
      case (Inr x)
      have "open_figures (snd (f x v')) = open_figures v'"
        using assms(2) [of x] by (simp add: keeps_figures_def)
      then show ?thesis using Pair Inr a by (simp add: bind_io_def)
    qed
  qed
qed

lemma keeps_savefig: "keeps_figures (plt_savefig env filename)"
  by (simp add: keeps_figures_def plt_savefig_def bind_io_def call_io_def Let_def split: option.splits)

lemma releases_bind:
  assumes "keeps_figures m" and "\<And>a. releases F fig (k a)"
  shows "releases F fig (bind_io m k)"
  unfolding releases_def
proof (intro allI impI)
  fix v :: world
  assume v: "open_figures v = F @ [fig]"
  show "case bind_io m k v of (Inl e, v') \<Rightarrow> open_figures v' = F @ [fig]
                | (Inr a, v') \<Rightarrow> open_figures v' = F"
  proof (cases "m v")
    case (Pair r v')
    have a: "open_figures v' = F @ [fig]"
      using assms(1) Pair v by (auto simp: keeps_figures_def dest: spec [of _ v])
    show ?thesis
    proof (cases r)
      case (Inl e)
      then show ?thesis using Pair a by (simp add: bind_io_def)
    next
      case (Inr x)
      then show ?thesis
        using Pair a assms(2) [of x] by (simp add: bind_io_def releases_def)
    qed
  qed
qed

lemma releases_close:
  assumes "fig \<notin> set F"
  shows "releases F fig (plt_close env fig)"
  using assms
  by (simp add: releases_def plt_close_def bind_io_def call_io_def Let_def split: option.splits)

lemma releases_rest:
  assumes "fig \<notin> set F" and "\<And>dt. keeps_figures (s dt)"
  shows "releases F fig
     (bind_io (call_io env c3) (\<lambda>_.
      bind_io (call_io env c4) (\<lambda>_.
      bind_io (call_io env c5) (\<lambda>_.
      bind_io (call_io env c6) (\<lambda>_.
      bind_io (call_io env c7) (\<lambda>_.
      bind_io (call_io env c8) (\<lambda>_.
      bind_io (call_io env c9) (\<lambda>_.
      bind_io (call_io env c10) (\<lambda>_.
      bind_io (call_io env c11) (\<lambda>_.
      bind_io (call_io env c12) (\<lambda>_.
      bind_io (lift_exn r) (\<lambda>dt.
      bind_io (call_io env (c13 dt)) (\<lambda>_.
      bind_io (s dt) (\<lambda>_.
      plt_close env fig))))))))))))))"
  by (intro releases_bind releases_close keeps_call keeps_lift assms)

lemma releasesD:
  "releases F fig k \<Longrightarrow> open_figures v = F @ [fig] \<Longrightarrow>
     (case k v of (Inl e, v') \<Rightarrow> open_figures v' = F @ [fig]
                | (Inr a, v') \<Rightarrow> open_figures v' = F)"
  by (simp add: releases_def)

lemma bind_call_ok:
  "plot_raises env c = None \<Longrightarrow>
     bind_io (call_io env c) f w = f () (w\<lparr>plot_log := plot_log w @ [c]\<rparr>)"
  by (simp add: bind_io_def call_io_def)

lemma bind_call_raises:
  "plot_raises env c = Some e \<Longrightarrow>
     bind_io (call_io env c) f w = (Inl e, w\<lparr>plot_log := plot_log w @ [c]\<rparr>)"
  by (simp add: bind_io_def call_io_def)

lemma bind_subplots_ok:
  "plot_raises env Subplots = None \<Longrightarrow>
     bind_io (plt_subplots env) f w
       = f (Suc (Max (set (0 # open_figures w))))
           (w\<lparr>plot_log := plot_log w @ [Subplots],
              open_figures := open_figures w @ [Suc (Max (set (0 # open_figures w)))]\<rparr>)"
  by (simp add: plt_subplots_def bind_io_def call_io_def Let_def)

lemma bind_subplots_raises:
  "plot_raises env Subplots = Some e \<Longrightarrow>
     bind_io (plt_subplots env) f w = (Inl e, w\<lparr>plot_log := plot_log w @ [Subplots]\<rparr>)"
  by (simp add: plt_subplots_def bind_io_def call_io_def Let_def)

lemma bind_lift_ok: "bind_io (lift_exn (Inr x)) f w = f x w"
  by (simp add: bind_io_def lift_exn_def)


lemma figure_protocol:
  fixes rest :: "nat \<Rightarrow> unit io"
  assumes rel: "\<And>fig F. fig \<notin> set F \<Longrightarrow> releases F fig (rest fig)"
  shows "(fst (bind_io (call_io env c) (\<lambda>_. bind_io (plt_subplots env) rest) w) = Inr ()
      \<longrightarrow> open_figures (snd (bind_io (call_io env c) (\<lambda>_. bind_io (plt_subplots env) rest) w))
          = open_figures w)
   \<and> (fst (bind_io (call_io env c) (\<lambda>_. bind_io (plt_subplots env) rest) w) = Inl e
        \<and> plot_raises env c = None \<and> plot_raises env Subplots = None
      \<longrightarrow> open_figures (snd (bind_io (call_io env c) (\<lambda>_. bind_io (plt_subplots env) rest) w))
          = open_figures w @ [Suc (Max (set (0 # open_figures w)))])"
proof (cases "plot_raises env c")
  case (Some x)
  then show ?thesis
    by (simp add: bind_call_raises)
next
  case None
  note c = this
  let ?w1 = "w\<lparr>plot_log := plot_log w @ [c]\<rparr>"
  show ?thesis
  proof (cases "plot_raises env Subplots")
    case (Some x)
    then show ?thesis
      by (simp add: bind_call_ok [OF c] bind_subplots_raises)
  next
    case None
    let ?fig = "Suc (Max (set (0 # open_figures w)))"
    let ?w3 = "?w1\<lparr>plot_log := plot_log ?w1 @ [Subplots],
                    open_figures := open_figures ?w1 @ [?fig]\<rparr>"
    have run: "bind_io (call_io env c) (\<lambda>_. bind_io (plt_subplots env) rest) w = rest ?fig ?w3"
      by (simp add: bind_call_ok [OF c] bind_subplots_ok [OF None])
    have r: "releases (open_figures w) ?fig (rest ?fig)"
      by (rule rel) (rule fresh_figure)
    have o: "open_figures ?w3 = open_figures w @ [?fig]"
      by simp
    obtain res v' where k: "rest ?fig ?w3 = (res, v')"
      by (cases "rest ?fig ?w3")
    have "case (res, v') of
          (Inl e, v') \<Rightarrow> open_figures v' = open_figures w @ [?fig]
        | (Inr a, v') \<Rightarrow> open_figures v' = open_figures w"
      using releasesD [OF r o] by (simp only: k)
    then show ?thesis
      unfolding run k by (cases res) (simp_all add: c None)
  qed
qed

lemma plot_run_drawing:
  assumes calls: "\<And>c. c \<in> set (drawing_calls img (tile_extent lat lon zoom) dt)
                     \<Longrightarrow> plot_raises env c = None"
    and dt: "utcfromtimestamp timestamp = Inr dt"
  shows "plot_tile_on_map env img lat lon zoom timestamp save w
     = bind_io
        (if save
         then bind_io (plt_savefig env (''radar_'' @ strftime dt ''%Y%m%d_%H%M'' @ ''_z''
                                          @ str_int zoom @ ''.png'')) (\<lambda>_.
                print_io (''Saved image as '' @ ''radar_'' @ strftime dt ''%Y%m%d_%H%M''
                                          @ ''_z'' @ str_int zoom @ ''.png''))
         else return_io ())
        (\<lambda>_. plt_close env (Suc (Max (set (0 # open_figures w)))))
        (w\<lparr>open_figures := open_figures w @ [Suc (Max (set (0 # open_figures w)))],
           plot_log := plot_log w @ drawing_calls img (tile_extent lat lon zoom) dt\<rparr>)"
  unfolding plot_tile_on_map_def Let_def dt
  apply (subst bind_call_ok, rule calls, simp add: drawing_calls_def)
  apply (subst bind_subplots_ok, rule calls, simp add: drawing_calls_def)
  apply (subst bind_call_ok, rule calls, simp add: drawing_calls_def)
  apply (subst bind_call_ok, rule calls, simp add: drawing_calls_def)
  apply (subst bind_call_ok, rule calls, simp add: drawing_calls_def)
  apply (subst bind_call_ok, rule calls, simp add: drawing_calls_def)
  apply (subst bind_call_ok, rule calls, simp add: drawing_calls_def)
  apply (subst bind_call_ok, rule calls, simp add: drawing_calls_def)
  apply (subst bind_call_ok, rule calls, simp add: drawing_calls_def)
  apply (subst bind_call_ok, rule calls, simp add: drawing_calls_def)
  apply (subst bind_call_ok, rule calls, simp add: drawing_calls_def)
  apply (subst bind_call_ok, rule calls, simp add: drawing_calls_def)
  apply (subst bind_lift_ok)
  apply (subst bind_call_ok, rule calls, simp add: drawing_calls_def)
  apply (simp add: drawing_calls_def)
  done

lemma plot_run_saved:
  assumes q: "plot_raises env = (\<lambda>c. None)" and dt: "utcfromtimestamp timestamp = Inr dt"
  shows "plot_tile_on_map env img lat lon zoom timestamp True w =
     (Inr (),
      w\<lparr>stdout := stdout w @ [''Saved image as '' @ ''radar_'' @ strftime dt ''%Y%m%d_%H%M''
                                  @ ''_z'' @ str_int zoom @ ''.png''],
        plot_log := plot_log w @ drawing_calls img (tile_extent lat lon zoom) dt
           @ [Savefig (''radar_'' @ strftime dt ''%Y%m%d_%H%M'' @ ''_z'' @ str_int zoom @ ''.png''),
              CloseFigure (Suc (Max (set (0 # open_figures w))))],
        files := (files w)(''radar_'' @ strftime dt ''%Y%m%d_%H%M'' @ ''_z'' @ str_int zoom @ ''.png''
           \<mapsto> plot_log w @ drawing_calls img (tile_extent lat lon zoom) dt
              @ [Savefig (''radar_'' @ strftime dt ''%Y%m%d_%H%M'' @ ''_z'' @ str_int zoom
                            @ ''.png'')])\<rparr>)"
  apply (subst plot_run_drawing [OF _ dt])
   apply (simp add: q)
  apply (simp add: bind_io_def plt_savefig_def call_io_def print_io_def plt_close_def q
      removeAll_fresh del: set_simps strftime.simps)
  done

lemma example_datetime:
  "utcfromtimestamp (JInt 1700000000)
     = Inr \<lparr>year = 2023, month = 11, day = 14, hour = 22, minute = 13, second = 20\<rparr>"
  by (simp add: utcfromtimestamp_def datetime_of_seconds_def ord2ymd_def Let_def
      DAYS_BEFORE_MONTH_def DAYS_IN_MONTH_def)

lemma example_filename:
  "''radar_'' @ strftime \<lparr>year = 2023, month = 11, day = 14, hour = 22, minute = 13, second = 20\<rparr>
       ''%Y%m%d_%H%M'' @ ''_z'' @ str_int 7 @ ''.png''
     = ''radar_20231114_2213_z7.png''"
  by (simp add: directive_def zero_pad_def fmt_defs)

subsection \<open>Release of the figure\<close>

text \<open>
  C9, amended. Whenever plot\_tile\_on\_map returns normally, with or without saving, the
  figure it created has been closed: the open figures are those of before the call. When
  a call raises after the figure has been created, the exception propagates and the figure
  is still open: nothing releases it on that path.
\<close>

theorem plot_closes_figure_on_return:
  "(fst (plot_tile_on_map env img lat lon zoom timestamp save w) = Inr ()
      \<longrightarrow> open_figures (snd (plot_tile_on_map env img lat lon zoom timestamp save w)) = open_figures w)
   \<and> (fst (plot_tile_on_map env img lat lon zoom timestamp save w) = Inl e
        \<and> plot_raises env RcParamsUpdate = None \<and> plot_raises env Subplots = None
      \<longrightarrow> open_figures (snd (plot_tile_on_map env img lat lon zoom timestamp save w))
          = open_figures w @ [Suc (Max (set (0 # open_figures w)))])"
  unfolding plot_tile_on_map_def Let_def
  by (rule figure_protocol, rule releases_rest, assumption)
     (simp add: keeps_bind keeps_savefig keeps_print keeps_return)

theorem plot_closes_figure_on_return_witness:
  "fst (plot_tile_on_map
          (example_env (answer metadata_url 200 ''OK'' ''application/json'' [123, 125])
             (answer [] 200 ''OK'' ''image/png'' [137, 80, 78, 71]) example_doc no_raise)
          (RGBA 1 1 [(0, 0, 0, 0)]) LAT LON ZOOM (JInt 1700000000) True empty_world) = Inr ()
   \<and> open_figures (snd (plot_tile_on_map
          (example_env (answer metadata_url 200 ''OK'' ''application/json'' [123, 125])
             (answer [] 200 ''OK'' ''image/png'' [137, 80, 78, 71]) example_doc no_raise)
          (RGBA 1 1 [(0, 0, 0, 0)]) LAT LON ZOOM (JInt 1700000000) True empty_world))
     = open_figures empty_world"
proof -
  let ?env = "example_env (answer metadata_url 200 ''OK'' ''application/json'' [123, 125])
             (answer [] 200 ''OK'' ''image/png'' [137, 80, 78, 71]) example_doc no_raise"
  have q: "plot_raises ?env = (\<lambda>c. None)"
    by (simp add: example_env_def no_raise_def fun_eq_iff)
  have f: "fst (plot_tile_on_map ?env (RGBA 1 1 [(0, 0, 0, 0)]) LAT LON ZOOM (JInt 1700000000)
      True empty_world) = Inr ()"
    by (simp add: plot_run_saved [OF q example_datetime])
  show ?thesis
    using plot_closes_figure_on_return [of ?env "RGBA 1 1 [(0, 0, 0, 0)]" LAT LON ZOOM
        "JInt 1700000000" True empty_world] f
    by simp
qed

text \<open>
  C9 as stated fails: when \<open>savefig\<close> raises (the file cannot be written),
  plot\_tile\_on\_map raises with the figure it created still open.
\<close>

theorem plot_leaves_figure_open_counterexample:
  "fst (plot_tile_on_map
          (example_env (answer metadata_url 200 ''OK'' ''application/json'' [123, 125])
             (answer [] 200 ''OK'' ''image/png'' [137, 80, 78, 71]) example_doc savefig_denied)
          (RGBA 1 1 [(0, 0, 0, 0)]) LAT LON ZOOM (JInt 1700000000) True empty_world)
     = Inl (Exn OSError (''[Errno 13] Permission denied: '' @ quote ''radar_20231114_2213_z7.png''))
   \<and> open_figures empty_world = []
   \<and> open_figures (snd (plot_tile_on_map
          (example_env (answer metadata_url 200 ''OK'' ''application/json'' [123, 125])
             (answer [] 200 ''OK'' ''image/png'' [137, 80, 78, 71]) example_doc savefig_denied)
          (RGBA 1 1 [(0, 0, 0, 0)]) LAT LON ZOOM (JInt 1700000000) True empty_world))
     = [1]"
proof -
  let ?env = "example_env (answer metadata_url 200 ''OK'' ''application/json'' [123, 125])
             (answer [] 200 ''OK'' ''image/png'' [137, 80, 78, 71]) example_doc savefig_denied"
  let ?dt = "\<lparr>year = 2023, month = 11, day = 14, hour = 22, minute = 13, second = 20\<rparr>"
  have calls: "plot_raises ?env c = None"
    if "c \<in> set (drawing_calls (RGBA 1 1 [(0, 0, 0, 0)]) (tile_extent LAT LON ZOOM) ?dt)" for c
    using that by (auto simp: drawing_calls_def example_env_def savefig_denied_def)
  have deny: "plot_raises ?env (Savefig n)
      = Some (Exn OSError (''[Errno 13] Permission denied: '' @ quote n))" for n
    by (simp add: example_env_def savefig_denied_def)
  have name: "''radar_'' @ strftime ?dt ''%Y%m%d_%H%M'' @ ''_z'' @ str_int ZOOM @ ''.png''
     = ''radar_20231114_2213_z7.png''"
    unfolding ZOOM_def by (rule example_filename)
  have run: "plot_tile_on_map ?env (RGBA 1 1 [(0, 0, 0, 0)]) LAT LON ZOOM (JInt 1700000000) True
       empty_world
     = (Inl (Exn OSError (''[Errno 13] Permission denied: '' @ quote ''radar_20231114_2213_z7.png'')),
        empty_world\<lparr>open_figures := [1],
          plot_log := drawing_calls (RGBA 1 1 [(0, 0, 0, 0)]) (tile_extent LAT LON ZOOM) ?dt
             @ [Savefig ''radar_20231114_2213_z7.png'']\<rparr>)"
    apply (subst plot_run_drawing [OF calls example_datetime])
     apply assumption
    apply (simp only: name if_True)
    apply (simp add: bind_io_def plt_savefig_def call_io_def deny empty_world_def)
    done
  show ?thesis
    unfolding run by (simp add: empty_world_def)
qed

subsection \<open>The saved file\<close>

text \<open>
  C6. For timestamp 1700000000 and zoom 7, when no plotting call raises, plot\_tile\_on\_map
  with \<open>save\<close> true saves the figure as \<open>radar_20231114_2213_z7.png\<close> (UTC, seconds
  dropped), prints that name, and writes no other file.
\<close>

theorem saved_filename_example:
  assumes "plot_raises env = (\<lambda>c. None)"
  shows "fst (plot_tile_on_map env img lat lon 7 (JInt 1700000000) True w) = Inr ()
    \<and> stdout (snd (plot_tile_on_map env img lat lon 7 (JInt 1700000000) True w))
        = stdout w @ [''Saved image as radar_20231114_2213_z7.png'']
    \<and> files (snd (plot_tile_on_map env img lat lon 7 (JInt 1700000000) True w))
        = (files w)(''radar_20231114_2213_z7.png''
            \<mapsto> butlast (plot_log (snd (plot_tile_on_map env img lat lon 7 (JInt 1700000000) True w))))
    \<and> last (butlast (plot_log (snd (plot_tile_on_map env img lat lon 7 (JInt 1700000000) True w))))
        = Savefig ''radar_20231114_2213_z7.png''"
  unfolding plot_run_saved [OF assms example_datetime] example_filename
  by (simp add: butlast_append del: strftime.simps)

theorem saved_filename_example_witness:
  "fst (plot_tile_on_map
          (example_env (answer metadata_url 200 ''OK'' ''application/json'' [123, 125])
             (answer [] 200 ''OK'' ''image/png'' [137, 80, 78, 71]) example_doc (\<lambda>c. None))
          (RGBA 1 1 [(0, 0, 0, 0)]) LAT LON 7 (JInt 1700000000) True empty_world) = Inr ()
   \<and> stdout (snd (plot_tile_on_map
          (example_env (answer metadata_url 200 ''OK'' ''application/json'' [123, 125])
             (answer [] 200 ''OK'' ''image/png'' [137, 80, 78, 71]) example_doc (\<lambda>c. None))
          (RGBA 1 1 [(0, 0, 0, 0)]) LAT LON 7 (JInt 1700000000) True empty_world))
       = [''Saved image as radar_20231114_2213_z7.png'']"
proof -
  let ?env = "example_env (answer metadata_url 200 ''OK'' ''application/json'' [123, 125])
             (answer [] 200 ''OK'' ''image/png'' [137, 80, 78, 71]) example_doc (\<lambda>c. None)"
  have q: "plot_raises ?env = (\<lambda>c. None)"
    by (simp add: example_env_def)
  show ?thesis
    using saved_filename_example [OF q, of "RGBA 1 1 [(0, 0, 0, 0)]" LAT LON empty_world]
    by (simp add: empty_world_def)
qed










end
